theory Spec2Isabelle
  imports Main "HOL-Library.Sublist" "HOL-Library.AList"
begin

section \<open>FocusGuard: blocks, delayed unblocking and schedules\<close>

text \<open>
  A shallow embedding of the library modules of the FocusGuard browser extension:
  \<^verbatim>\<open>lib/domain-utils.js\<close>, \<^verbatim>\<open>lib/validation.js\<close>, \<^verbatim>\<open>lib/time-utils.js\<close>,
  \<^verbatim>\<open>lib/storage.js\<close>, \<^verbatim>\<open>lib/block-manager.js\<close>, \<^verbatim>\<open>lib/unblock-manager.js\<close> and
  \<^verbatim>\<open>lib/schedule-manager.js\<close>.

  Conventions of the model.
  \<^item> A JavaScript string is a \<open>string\<close>; a character is one code unit below 256.
  \<^item> A stored object (\<open>activeBlocks\<close>, \<open>pendingUnblocks\<close>, \<open>dailyAttempts\<close>) is an
    association list of its own properties in insertion order, and its prototype is
    \<open>Object.prototype\<close>. Reading \<open>obj[k]\<close> is \<open>getProperty obj k\<close>: the own property,
    or else a member inherited from the prototype, or else \<open>undefined\<close>. The assignment
    \<open>obj[k] = v\<close> is \<open>setProperty k v obj\<close>: it replaces an own property in place and
    appends a new one, except that for \<open>__proto__\<close> without an own property it calls the
    setter of the prototype and adds nothing. \<open>delete obj[k]\<close> is \<open>AList.delete k obj\<close>, and
    \<open>Object.entries\<close> lists the own properties. The copy that \<open>getAll\<close> builds is
    modelled for stored maps without an own property named \<open>__proto__\<close>.
  \<^item> Numbers are mathematical integers (\<open>int\<close>); times are milliseconds since the epoch.
  \<^item> An \<open>async\<close> function is a state transformer on the record \<open>store\<close>; a thrown
    \<open>FocusGuardError\<close> is the \<open>Inl\<close> branch of the result, and the store that is
    returned with it holds the writes made before the throw.
  \<^item> The calls are sequential: \<open>withLock\<close> always finds the lock free, and
    \<open>chrome.storage\<close> and \<open>chrome.alarms\<close> do not fail.
  \<^item> What the platform computes is a parameter: the URL parser, \<open>Number\<close> on strings
    and the string of a large number are the fields of a record \<open>platform\<close>. The clock
    is read once for each call of an operation: a record \<open>clock\<close> holds what \<open>Date\<close>
    yields then, and every read of the clock within the call returns it. The date key of
    the day is computed from the instant, as \<open>toISOString\<close> does, in UTC.
\<close>

subsection \<open>Strings\<close>

definition isWhiteSpace :: "char \<Rightarrow> bool" where
  \<comment> \<open>the code units below 256 that \<open>trim\<close>, \<open>parseInt\<close> and the pattern \<open>\s\<close> skip:
      TAB, LF, VT, FF, CR, SP and NBSP\<close>
  "isWhiteSpace c = ((of_char c :: nat) \<in> {9, 10, 11, 12, 13, 32, 160})"

definition trim :: "string \<Rightarrow> string" where
  "trim s = rev (dropWhile isWhiteSpace (rev (dropWhile isWhiteSpace s)))"

definition lowerChar :: "char \<Rightarrow> char" where
  \<comment> \<open>the upper-case letters below 256 are \<open>A\<close> to \<open>Z\<close> (65 to 90) and the accented
      capitals 192 to 222 without the multiplication sign 215; each has its lower-case
      letter 32 places further on\<close>
  "lowerChar c =
     (let n = (of_char c :: nat)
      in if (65 \<le> n \<and> n \<le> 90) \<or> (192 \<le> n \<and> n \<le> 222 \<and> n \<noteq> 215)
         then char_of (n + 32) else c)"

definition toLowerCase :: "string \<Rightarrow> string" where
  "toLowerCase s = map lowerChar s"

definition str_includes :: "string \<Rightarrow> string \<Rightarrow> bool" where
  "str_includes s t = sublist t s"

definition startsWith :: "string \<Rightarrow> string \<Rightarrow> bool" where
  "startsWith s t = prefix t s"

definition endsWith :: "string \<Rightarrow> string \<Rightarrow> bool" where
  "endsWith s t = suffix t s"

subsection \<open>The platform and the clock\<close>

record platform =
  hostname :: "string \<Rightarrow> string option"
    \<comment> \<open>\<open>new URL(u).hostname\<close>; \<open>None\<close> when the constructor throws\<close>
  Number :: "string \<Rightarrow> int option"
    \<comment> \<open>\<open>Number(s)\<close> for a part of a time string; \<open>None\<close> when the result is not
        finite. Parts that \<open>Number\<close> reads as a fraction are outside the model.\<close>
  numberToString :: "int \<Rightarrow> string"
    \<comment> \<open>\<open>String(n)\<close> for a number of magnitude \<open>10\<^sup>2\<^sup>1\<close> or more, which JavaScript
        writes with an exponent, as in \<open>1e+21\<close>\<close>

record clock =
  Date_now :: int          \<comment> \<open>\<open>Date.now()\<close>\<close>
  getCurrentDay :: int     \<comment> \<open>\<open>new Date().getDay()\<close>\<close>
  getCurrentTime :: string \<comment> \<open>\<open>new Date().toTimeString().slice(0, 5)\<close>\<close>

text \<open>
  \<open>getTodayKey\<close> is \<open>new Date().toISOString().split('T')[0]\<close>: the date of the instant in
  UTC, as \<open>YYYY-MM-DD\<close>, or with a sign and six digits for a year outside 0 to 9999. The
  days since the epoch are turned into year, month and day of the Gregorian calendar.
\<close>

definition digitChar :: "int \<Rightarrow> char" where
  "digitChar d = char_of (48 + nat d)"

definition padded :: "nat \<Rightarrow> int \<Rightarrow> string" where
  \<comment> \<open>the last \<open>w\<close> decimal digits of \<open>n \<ge> 0\<close>, with leading zeros\<close>
  "padded w n = map (\<lambda>i. digitChar (n div 10 ^ i mod 10)) (rev [0..<w])"

definition civilFromDays :: "int \<Rightarrow> int \<times> int \<times> int" where
  "civilFromDays days =
     (let z = days + 719468;
          era = z div 146097;
          doe = z - era * 146097;
          yoe = (doe - doe div 1460 + doe div 36524 - doe div 146096) div 365;
          doy = doe - (365 * yoe + yoe div 4 - yoe div 100);
          mp = (5 * doy + 2) div 153;
          d = doy - (153 * mp + 2) div 5 + 1;
          m = (if mp < 10 then mp + 3 else mp - 9);
          y = yoe + era * 400 + (if m \<le> 2 then 1 else 0)
      in (y, m, d))"

definition toISODate :: "int \<Rightarrow> string" where
  "toISODate t =
     (let (y, m, d) = civilFromDays (t div 86400000);
          year = (if 0 \<le> y \<and> y \<le> 9999 then padded 4 y
                  else (if y < 0 then ''-'' else ''+'') @ padded 6 \<bar>y\<bar>)
      in year @ ''-'' @ padded 2 m @ ''-'' @ padded 2 d)"

definition getTodayKey :: "clock \<Rightarrow> string" where
  "getTodayKey clk = toISODate (Date_now clk)"

subsection \<open>Objects\<close>

text \<open>
  The members that every plain object inherits from \<open>Object.prototype\<close>. All of them are
  objects or functions, so an inherited member is truthy, and none of them has a property
  \<open>unlocksAt\<close>, \<open>until\<close> or \<open>reason\<close>.
\<close>

definition objectPrototypeNames :: "string list" where
  "objectPrototypeNames =
     [''constructor'', ''__defineGetter__'', ''__defineSetter__'', ''hasOwnProperty'',
      ''__lookupGetter__'', ''__lookupSetter__'', ''isPrototypeOf'', ''propertyIsEnumerable'',
      ''toString'', ''valueOf'', ''__proto__'', ''toLocaleString'']"

datatype 'v property = Own 'v | Inherited | Undefined

definition getProperty :: "(string \<times> 'v) list \<Rightarrow> string \<Rightarrow> 'v property" where
  "getProperty obj k =
     (case map_of obj k of
        Some v \<Rightarrow> Own v
      | None \<Rightarrow> if k \<in> set objectPrototypeNames then Inherited else Undefined)"

definition setProperty :: "string \<Rightarrow> 'v \<Rightarrow> (string \<times> 'v) list \<Rightarrow> (string \<times> 'v) list" where
  "setProperty k v obj =
     (if k = ''__proto__'' \<and> map_of obj k = None then obj else AList.update k v obj)"

subsection \<open>Domain utilities\<close>

definition extractDomain :: "platform \<Rightarrow> string \<Rightarrow> string option" where
  \<comment> \<open>\<open>None\<close> is \<open>null\<close>; the callers test the result for falsiness, which also
      holds of the empty string\<close>
  "extractDomain P url =
     (if url = [] then None
      else
        let urlToParse = trim url;
            urlToParse = (if \<not> str_includes urlToParse ''://''
                          then ''https://'' @ urlToParse else urlToParse)
        in (case hostname P urlToParse of
              None \<Rightarrow> None
            | Some h \<Rightarrow>
                Some (toLowerCase (if startsWith h ''www.'' then drop 4 h else h))))"

definition domainMatches :: "string \<Rightarrow> string \<Rightarrow> bool" where
  "domainMatches childDomain parentDomain =
     (if childDomain = [] \<or> parentDomain = [] then False
      else
        let child = toLowerCase childDomain;
            parent = toLowerCase parentDomain
        in if child = parent then True
           else endsWith child (''.'' @ parent))"

subsection \<open>Constants\<close>

definition UNBLOCK_DELAY_BASE_MINUTES :: int where "UNBLOCK_DELAY_BASE_MINUTES = 5"
definition UNBLOCK_DELAY_MAX_MINUTES :: int where "UNBLOCK_DELAY_MAX_MINUTES = 15"
definition UNBLOCK_DELAY_ESCALATION_MINUTES :: int where "UNBLOCK_DELAY_ESCALATION_MINUTES = 5"
definition MIN_BLOCK_MINUTES :: int where "MIN_BLOCK_MINUTES = 1"
definition MAX_BLOCK_MINUTES :: int where "MAX_BLOCK_MINUTES = 480"
definition UNBLOCK_PREFIX :: string where "UNBLOCK_PREFIX = ''unblock_''"
definition MANUAL :: string where "MANUAL = ''manual''"
definition SCHEDULE :: string where "SCHEDULE = ''schedule''"
definition ACTIVE_BLOCKS :: string where "ACTIVE_BLOCKS = ''activeBlocks''"
definition STATS :: string where "STATS = ''stats''"
definition PENDING_UNBLOCKS :: string where "PENDING_UNBLOCKS = ''pendingUnblocks''"
definition DAILY_ATTEMPTS :: string where "DAILY_ATTEMPTS = ''dailyAttempts''"

subsection \<open>Errors\<close>

datatype ErrorCode =
    INVALID_DOMAIN | INVALID_DURATION | DURATION_TOO_SHORT | DURATION_TOO_LONG
  | BLOCK_NOT_FOUND
  | UNBLOCK_PENDING | UNBLOCK_DELAY_NOT_COMPLETE | NO_PENDING_UNBLOCK

text \<open>
  A \<open>FocusGuardError\<close> carries its code and, in \<open>details\<close>, the remaining time in seconds
  where the source passes one. The message text is not modelled.
\<close>

datatype FocusGuardError = FocusGuardError (code: ErrorCode) (remainingTime: "int option")

subsection \<open>Validation\<close>

definition invalidPatterns :: "string \<Rightarrow> bool" where
  \<comment> \<open>one of: starts with a dot, ends with a dot, two dots in a row, white space,
      one of the characters \<open><\<close>, \<open>>\<close>, apostrophe, double quote, \<open>&\<close>\<close>
  "invalidPatterns cleaned =
     (startsWith cleaned ''.'' \<or> endsWith cleaned ''.'' \<or> str_includes cleaned ''..''
      \<or> list_ex isWhiteSpace cleaned
      \<or> list_ex (\<lambda>c. c \<in> set [CHR ''<'', CHR ''>'', CHR 0x27, CHR 0x22, CHR ''&'']) cleaned)"

definition validateDomain :: "platform \<Rightarrow> string \<Rightarrow> ErrorCode + string" where
  "validateDomain P domain =
     (if domain = [] then Inl INVALID_DOMAIN
      else (case extractDomain P domain of
              None \<Rightarrow> Inl INVALID_DOMAIN
            | Some cleaned \<Rightarrow>
                if cleaned = [] then Inl INVALID_DOMAIN
                else if length cleaned < 3 then Inl INVALID_DOMAIN
                else if \<not> str_includes cleaned ''.'' then Inl INVALID_DOMAIN
                else if invalidPatterns cleaned then Inl INVALID_DOMAIN
                else Inr cleaned))"

text \<open>
  The duration that \<open>add\<close> receives is a number or a string (or is missing).
  \<open>parseInt(v, 10)\<close> turns its argument into a string first. On a string it skips leading
  white space, reads an optional sign and the longest run of decimal digits, and is
  \<open>NaN\<close> when there is no digit; a numeral that rounds beyond the largest double is
  infinite. The string of an integer \<open>n\<close> below \<open>10\<^sup>2\<^sup>1\<close> in absolute value is its decimal
  numeral, which \<open>parseInt\<close> reads back as \<open>n\<close>. From \<open>10\<^sup>2\<^sup>1\<close> on the string has an
  exponent, and \<open>parseInt\<close> reads the digits before the point or the \<open>e\<close> only.
\<close>

datatype jsValue = JNumber int | JString string | JUndefined

datatype jsNumber = NaN | PosInfinity | NegInfinity | Num int

definition isDigit :: "char \<Rightarrow> bool" where
  "isDigit c = (48 \<le> (of_char c :: nat) \<and> (of_char c :: nat) \<le> 57)"

definition digitsValue :: "string \<Rightarrow> int" where
  "digitsValue ds = foldl (\<lambda>acc c. acc * 10 + (int (of_char c) - 48)) 0 ds"

definition parseIntString :: "string \<Rightarrow> jsNumber" where
  "parseIntString s =
     (let t = dropWhile isWhiteSpace s;
          negative = (t \<noteq> [] \<and> hd t = CHR ''-'');
          r = (if t \<noteq> [] \<and> (hd t = CHR ''-'' \<or> hd t = CHR ''+'') then tl t else t);
          ds = takeWhile isDigit r
      in if ds = [] then NaN
         else if digitsValue ds \<ge> 2 ^ 1024 - 2 ^ 970
         then (if negative then NegInfinity else PosInfinity)
         else Num (if negative then - digitsValue ds else digitsValue ds))"

definition parseInt :: "platform \<Rightarrow> jsValue \<Rightarrow> jsNumber" where
  "parseInt P v =
     (case v of
        JNumber n \<Rightarrow>
          if \<bar>n\<bar> < 10 ^ 21 then Num n else parseIntString (numberToString P n)
      | JUndefined \<Rightarrow> NaN
      | JString s \<Rightarrow> parseIntString s)"

definition validateDuration :: "platform \<Rightarrow> jsValue \<Rightarrow> ErrorCode + int" where
  \<comment> \<open>\<open>Number.isFinite(parsed)\<close> is false of \<open>NaN\<close> and of the two infinities\<close>
  "validateDuration P minutes =
     (case parseInt P minutes of
        Num parsed \<Rightarrow>
          if parsed < MIN_BLOCK_MINUTES then Inl DURATION_TOO_SHORT
          else if parsed > MAX_BLOCK_MINUTES then Inl DURATION_TOO_LONG
          else Inr parsed
      | notFinite \<Rightarrow> Inl INVALID_DURATION)"

subsection \<open>Storage\<close>

record blockEntry =
  until :: int
  blockedAt :: int
  reason :: string

record pendingUnblock =
  requestedAt :: int
  unlocksAt :: int
  attemptNumber :: int

text \<open>
  The stored settings may lack a field; \<open>getSettings\<close> spreads the stored object over
  \<open>DEFAULT_SETTINGS\<close>. Only the two fields that the unblock manager reads are modelled.
\<close>

record storedSettings =
  stored_unblockDelayBase :: "int option"
  stored_unblockDelayEscalation :: "bool option"

record settings =
  unblockDelayBase :: int
  unblockDelayEscalation :: bool

text \<open>
  The two storage areas and the alarms of the browser. \<open>writes\<close> lists the keys of the
  calls of \<open>chrome.storage.*.set\<close> in the order they were made; of the statistics only
  \<open>totalBlocksCreated\<close> is modelled.
\<close>

record store =
  activeBlocks :: "(string \<times> blockEntry) list"
  storedSettings :: storedSettings
  pendingUnblocks :: "(string \<times> pendingUnblock) list"
  dailyAttempts :: "(string \<times> int) list"
  totalBlocksCreated :: int
  alarms :: "(string \<times> int) list"
  writes :: "string list"

definition getActiveBlocks :: "store \<Rightarrow> (string \<times> blockEntry) list" where
  "getActiveBlocks s = activeBlocks s"

definition setActiveBlocks :: "(string \<times> blockEntry) list \<Rightarrow> store \<Rightarrow> store" where
  "setActiveBlocks blocks s = s\<lparr>activeBlocks := blocks, writes := writes s @ [ACTIVE_BLOCKS]\<rparr>"

definition updateActiveBlocks ::
  "((string \<times> blockEntry) list \<Rightarrow> (string \<times> blockEntry) list) \<Rightarrow> store \<Rightarrow> store" where
  "updateActiveBlocks updateFn s = setActiveBlocks (updateFn (getActiveBlocks s)) s"

definition getSettings :: "store \<Rightarrow> settings" where
  "getSettings s =
     \<lparr>unblockDelayBase =
        (case stored_unblockDelayBase (storedSettings s) of
           None \<Rightarrow> UNBLOCK_DELAY_BASE_MINUTES | Some b \<Rightarrow> b),
      unblockDelayEscalation =
        (case stored_unblockDelayEscalation (storedSettings s) of
           None \<Rightarrow> True | Some e \<Rightarrow> e)\<rparr>"

definition updateStats :: "(int \<Rightarrow> int) \<Rightarrow> store \<Rightarrow> store" where
  "updateStats updateFn s =
     s\<lparr>totalBlocksCreated := updateFn (totalBlocksCreated s), writes := writes s @ [STATS]\<rparr>"

definition getPendingUnblocks :: "store \<Rightarrow> (string \<times> pendingUnblock) list" where
  "getPendingUnblocks s = pendingUnblocks s"

definition setPendingUnblocks :: "(string \<times> pendingUnblock) list \<Rightarrow> store \<Rightarrow> store" where
  "setPendingUnblocks pending s =
     s\<lparr>pendingUnblocks := pending, writes := writes s @ [PENDING_UNBLOCKS]\<rparr>"

definition updatePendingUnblocks ::
  "((string \<times> pendingUnblock) list \<Rightarrow> (string \<times> pendingUnblock) list) \<Rightarrow> store \<Rightarrow> store" where
  "updatePendingUnblocks updateFn s = setPendingUnblocks (updateFn (getPendingUnblocks s)) s"

definition getDailyAttempts :: "store \<Rightarrow> (string \<times> int) list" where
  "getDailyAttempts s = dailyAttempts s"

definition updateDailyAttempts ::
  "((string \<times> int) list \<Rightarrow> (string \<times> int) list) \<Rightarrow> store \<Rightarrow> store" where
  "updateDailyAttempts updateFn s =
     s\<lparr>dailyAttempts := updateFn (getDailyAttempts s), writes := writes s @ [DAILY_ATTEMPTS]\<rparr>"

subsection \<open>Block manager\<close>

definition add ::
  "platform \<Rightarrow> clock \<Rightarrow> string \<Rightarrow> jsValue \<Rightarrow> string \<Rightarrow> store \<Rightarrow> (FocusGuardError + string) \<times> store"
  where
  "add P clk domain minutes blockReason s =
     (case validateDomain P domain of
        Inl e \<Rightarrow> (Inl (FocusGuardError e None), s)
      | Inr cleanDomain \<Rightarrow>
          (case validateDuration P minutes of
             Inl e \<Rightarrow> (Inl (FocusGuardError e None), s)
           | Inr validMinutes \<Rightarrow>
               let s1 = updateActiveBlocks
                          (AList.update cleanDomain
                             \<lparr>until = Date_now clk + validMinutes * 60 * 1000,
                              blockedAt = Date_now clk,
                              reason = blockReason\<rparr>) s;
                   s2 = updateStats (\<lambda>total. total + 1) s1
               in (Inr cleanDomain, s2)))"

definition remove :: "platform \<Rightarrow> string \<Rightarrow> store \<Rightarrow> (FocusGuardError + string) \<times> store" where
  "remove P domain s =
     (case extractDomain P domain of
        None \<Rightarrow> (Inl (FocusGuardError INVALID_DOMAIN None), s)
      | Some cleanDomain \<Rightarrow>
          if cleanDomain = [] then (Inl (FocusGuardError INVALID_DOMAIN None), s)
          else
            let found = (getProperty (getActiveBlocks s) cleanDomain \<noteq> Undefined);
                s1 = updateActiveBlocks
                       (\<lambda>blocks. if getProperty blocks cleanDomain \<noteq> Undefined
                                 then AList.delete cleanDomain blocks else blocks) s;
                s2 = updatePendingUnblocks (AList.delete cleanDomain) s1
            in if \<not> found then (Inl (FocusGuardError BLOCK_NOT_FOUND None), s2)
               else (Inr cleanDomain, s2))"

definition getAll :: "clock \<Rightarrow> store \<Rightarrow> (string \<times> blockEntry) list \<times> store" where
  "getAll clk s =
     (let blocks = getActiveBlocks s;
          now = Date_now clk;
          hasExpired = list_ex (\<lambda>(domain, info). \<not> now < until info) blocks;
          activeBlocks = filter (\<lambda>(domain, info). now < until info) blocks
      in (activeBlocks, if hasExpired then setActiveBlocks activeBlocks s else s))"

definition isBlocked :: "platform \<Rightarrow> clock \<Rightarrow> string \<Rightarrow> store \<Rightarrow> bool \<times> store" where
  "isBlocked P clk domain s =
     (case extractDomain P domain of
        None \<Rightarrow> (False, s)
      | Some cleanDomain \<Rightarrow>
          if cleanDomain = [] then (False, s)
          else
            let (blocks, s1) = getAll clk s
            in if getProperty blocks cleanDomain \<noteq> Undefined then (True, s1)
               else (list_ex (\<lambda>blockedDomain. domainMatches cleanDomain blockedDomain)
                       (map fst blocks), s1))"

text \<open>
  The block info is the matched domain with the fields of the entry spread over it. For
  an inherited member there is nothing to spread, and the info has the domain only.
\<close>

definition getBlockInfo ::
  "platform \<Rightarrow> clock \<Rightarrow> string \<Rightarrow> store \<Rightarrow> (string \<times> blockEntry option) option \<times> store"
  where
  "getBlockInfo P clk domain s =
     (case extractDomain P domain of
        None \<Rightarrow> (None, s)
      | Some cleanDomain \<Rightarrow>
          if cleanDomain = [] then (None, s)
          else
            let (blocks, s1) = getAll clk s
            in (case getProperty blocks cleanDomain of
                  Own info \<Rightarrow> (Some (cleanDomain, Some info), s1)
                | Inherited \<Rightarrow> (Some (cleanDomain, None), s1)
                | Undefined \<Rightarrow>
                    (case find (\<lambda>(blockedDomain, info). domainMatches cleanDomain blockedDomain)
                            blocks of
                       None \<Rightarrow> (None, s1)
                     | Some (blockedDomain, info) \<Rightarrow> (Some (blockedDomain, Some info), s1))))"

subsection \<open>Unblock manager\<close>

definition ceilDiv :: "int \<Rightarrow> int \<Rightarrow> int" where
  \<comment> \<open>\<open>Math.ceil(x / d)\<close> for integers \<open>x\<close> and \<open>d > 0\<close>\<close>
  "ceilDiv x d = - ((- x) div d)"

record unblockResponse =
  waitTime :: int
  response_unlocksAt :: int
  response_attemptNumber :: int

text \<open>
  In \<open>request\<close> and \<open>confirm\<close> the remaining time is a number only when the pending
  unblock is an own property. For an inherited member \<open>unlocksAt\<close> is \<open>undefined\<close> and the
  remaining time is \<open>NaN\<close> (here \<open>None\<close>), which is not greater than 0. The key of the
  daily attempts ends with the date, so it names no inherited member, and the count is
  read with \<open>map_of\<close>.
\<close>

definition request ::
  "platform \<Rightarrow> clock \<Rightarrow> string \<Rightarrow> store \<Rightarrow> (FocusGuardError + unblockResponse) \<times> store" where
  "request P clk domain s =
     (case extractDomain P domain of
        None \<Rightarrow> (Inl (FocusGuardError INVALID_DOMAIN None), s)
      | Some cleanDomain \<Rightarrow>
          if cleanDomain = [] then (Inl (FocusGuardError INVALID_DOMAIN None), s)
          else
            let pending = getPendingUnblocks s;
                remaining =
                  (case getProperty pending cleanDomain of
                     Own p \<Rightarrow> Some (ceilDiv (unlocksAt p - Date_now clk) 1000)
                   | notAnEntry \<Rightarrow> None)
            in if remaining \<noteq> None \<and> the remaining > 0
               then (Inl (FocusGuardError UNBLOCK_PENDING remaining), s)
               else
                 let settings = getSettings s;
                     today = getTodayKey clk;
                     attemptKey = cleanDomain @ ''_'' @ today;
                     dailyAttempts = getDailyAttempts s;
                     attemptNumber =
                       (case map_of dailyAttempts attemptKey of
                          None \<Rightarrow> 0 | Some n \<Rightarrow> n) + 1;
                     s1 = updateDailyAttempts (setProperty attemptKey attemptNumber) s;
                     delayMinutes =
                       (if unblockDelayBase settings = 0 then UNBLOCK_DELAY_BASE_MINUTES
                        else unblockDelayBase settings);
                     delayMinutes =
                       (if unblockDelayEscalation settings \<and> attemptNumber > 1
                        then min UNBLOCK_DELAY_MAX_MINUTES
                               (delayMinutes
                                + (attemptNumber - 1) * UNBLOCK_DELAY_ESCALATION_MINUTES)
                        else delayMinutes);
                     waitTimeSeconds = delayMinutes * 60;
                     unlocksAt = Date_now clk + waitTimeSeconds * 1000;
                     s2 = updatePendingUnblocks
                            (setProperty cleanDomain
                               \<lparr>requestedAt = Date_now clk,
                                unlocksAt = unlocksAt,
                                attemptNumber = attemptNumber\<rparr>) s1;
                     s3 = s2\<lparr>alarms :=
                               AList.update (UNBLOCK_PREFIX @ cleanDomain) unlocksAt (alarms s2)\<rparr>
                 in (Inr \<lparr>waitTime = waitTimeSeconds,
                          response_unlocksAt = unlocksAt,
                          response_attemptNumber = attemptNumber\<rparr>, s3))"

definition cancel :: "platform \<Rightarrow> string \<Rightarrow> store \<Rightarrow> (FocusGuardError + string) \<times> store" where
  "cancel P domain s =
     (case extractDomain P domain of
        None \<Rightarrow> (Inl (FocusGuardError INVALID_DOMAIN None), s)
      | Some cleanDomain \<Rightarrow>
          if cleanDomain = [] then (Inl (FocusGuardError INVALID_DOMAIN None), s)
          else
            let found = (getProperty (getPendingUnblocks s) cleanDomain \<noteq> Undefined);
                s1 = updatePendingUnblocks
                       (\<lambda>pending. if getProperty pending cleanDomain \<noteq> Undefined
                                  then AList.delete cleanDomain pending else pending) s;
                s2 = s1\<lparr>alarms := AList.delete (UNBLOCK_PREFIX @ cleanDomain) (alarms s1)\<rparr>
            in if \<not> found then (Inl (FocusGuardError NO_PENDING_UNBLOCK None), s2)
               else (Inr cleanDomain, s2))"

definition confirm ::
  "platform \<Rightarrow> clock \<Rightarrow> string \<Rightarrow> store \<Rightarrow> (FocusGuardError + string) \<times> store" where
  "confirm P clk domain s =
     (case extractDomain P domain of
        None \<Rightarrow> (Inl (FocusGuardError INVALID_DOMAIN None), s)
      | Some cleanDomain \<Rightarrow>
          if cleanDomain = [] then (Inl (FocusGuardError INVALID_DOMAIN None), s)
          else
            let pending = getPendingUnblocks s;
                remaining =
                  (case getProperty pending cleanDomain of
                     Own p \<Rightarrow> Some (unlocksAt p - Date_now clk)
                   | notAnEntry \<Rightarrow> None)
            in if remaining \<noteq> None \<and> the remaining > 0
               then (Inl (FocusGuardError UNBLOCK_DELAY_NOT_COMPLETE
                            (Some (ceilDiv (the remaining) 1000))), s)
               else
                 (case remove P cleanDomain s of
                    (Inl e, s1) \<Rightarrow> (Inl e, s1)
                  | (Inr removed, s1) \<Rightarrow>
                      (Inr cleanDomain, updatePendingUnblocks (AList.delete cleanDomain) s1)))"

subsection \<open>Time utilities\<close>

fun split :: "char \<Rightarrow> string \<Rightarrow> string list" where
  "split sep [] = [[]]"
| "split sep (c # cs) =
     (if c = sep then [] # split sep cs
      else (case split sep cs of
              [] \<Rightarrow> [[c]]
            | part # parts \<Rightarrow> (c # part) # parts))"

definition parseTimeToMinutes :: "platform \<Rightarrow> string \<Rightarrow> int" where
  \<comment> \<open>a missing second part is \<open>undefined\<close>, which is not finite\<close>
  "parseTimeToMinutes P timeStr =
     (if timeStr = [] then 0
      else
        let parts = split CHR '':'' timeStr
        in (case parts of
              hours # mins # rest \<Rightarrow>
                (case (Number P hours, Number P mins) of
                   (Some h, Some m) \<Rightarrow> h * 60 + m
                 | notFinite \<Rightarrow> 0)
            | tooShort \<Rightarrow> 0))"

definition isInTimeWindow :: "platform \<Rightarrow> clock \<Rightarrow> string \<Rightarrow> string \<Rightarrow> bool" where
  "isInTimeWindow P clk startTime endTime =
     (let current = parseTimeToMinutes P (getCurrentTime clk);
          start = parseTimeToMinutes P startTime;
          end = parseTimeToMinutes P endTime
      in current \<ge> start \<and> current < end)"

definition minutesUntilEndTime :: "platform \<Rightarrow> clock \<Rightarrow> string \<Rightarrow> int" where
  "minutesUntilEndTime P clk endTime =
     (let current = parseTimeToMinutes P (getCurrentTime clk);
          end = parseTimeToMinutes P endTime;
          remaining = end - current
      in if remaining > 0 then remaining else 0)"

subsection \<open>Schedule manager\<close>

text \<open>Of a schedule, the fields that \<open>checkSingle\<close> reads.\<close>

record schedule =
  domains :: "string list"
  startTime :: string
  endTime :: string
  days :: "int list"
  enabled :: bool

definition activateDomain :: "platform \<Rightarrow> clock \<Rightarrow> int \<Rightarrow> string \<Rightarrow> store \<Rightarrow> store" where
  \<comment> \<open>the body of the loop of \<open>checkSingle\<close>; an error thrown by \<open>add\<close> is caught and
      logged, and the store is as \<open>add\<close> left it. An info without the fields of an
      entry has the reason \<open>undefined\<close>, which is not \<open>schedule\<close>.\<close>
  "activateDomain P clk remainingMinutes domain s =
     (let (blockInfo, s1) = getBlockInfo P clk domain s
      in if (case blockInfo of
               None \<Rightarrow> True
             | Some (blockedDomain, None) \<Rightarrow> True
             | Some (blockedDomain, Some info) \<Rightarrow> reason info \<noteq> SCHEDULE)
         then snd (add P clk domain (JNumber remainingMinutes) SCHEDULE s1)
         else s1)"

definition checkSingle :: "platform \<Rightarrow> clock \<Rightarrow> schedule \<Rightarrow> store \<Rightarrow> store" where
  "checkSingle P clk schedule s =
     (if \<not> enabled schedule then s
      else if getCurrentDay clk \<notin> set (days schedule) then s
      else if \<not> isInTimeWindow P clk (startTime schedule) (endTime schedule) then s
      else
        let remainingMinutes = minutesUntilEndTime P clk (endTime schedule)
        in if remainingMinutes \<le> 0 then s
           else fold (activateDomain P clk remainingMinutes) (domains schedule) s)"

subsection \<open>A platform for examples\<close>

text \<open>
  The theorems below hold for every platform. Their examples are evaluated on this one:
  the host name of a URL is the text between \<open>://\<close> and the next \<open>/\<close>, \<open>?\<close> or \<open>#\<close>,
  \<open>Number\<close> reads a string of decimal digits, and the string of a large number is its
  first digit, the digits up to the last one that is not zero after a point, and the
  exponent: \<open>1e+21\<close> for \<open>10\<^sup>2\<^sup>1\<close> and \<open>1.5e+21\<close> for one and a half times as much.
\<close>

fun afterScheme :: "string \<Rightarrow> string" where
  "afterScheme (a # b # c # cs) =
     (if [a, b, c] = ''://'' then cs else afterScheme (b # c # cs))"
| "afterScheme cs = []"

definition exampleHostname :: "string \<Rightarrow> string option" where
  "exampleHostname u =
     (let h = takeWhile (\<lambda>c. c \<notin> set ''/?#'') (afterScheme u)
      in if h = [] then None else Some h)"

definition exampleNumber :: "string \<Rightarrow> int option" where
  "exampleNumber str = (if list_all isDigit str then Some (digitsValue str) else None)"

function decimalDigits :: "int \<Rightarrow> int list" where
  "decimalDigits n = (if n < 10 then [n] else decimalDigits (n div 10) @ [n mod 10])"
  by pat_completeness auto
termination
  by (relation "measure nat") auto

definition exampleNumberToString :: "int \<Rightarrow> string" where
  "exampleNumberToString n =
     (let ds = decimalDigits \<bar>n\<bar>;
          fraction = rev (dropWhile (\<lambda>d. d = 0) (rev (tl ds)))
      in (if n < 0 then ''-'' else [])
         @ [digitChar (hd ds)]
         @ (if fraction = [] then [] else ''.'' @ map digitChar fraction)
         @ ''e+'' @ map digitChar (decimalDigits (int (length ds) - 1)))"

definition examplePlatform :: platform where
  "examplePlatform =
     \<lparr>hostname = exampleHostname, Number = exampleNumber,
      numberToString = exampleNumberToString\<rparr>"

definition emptyStore :: store where
  "emptyStore =
     \<lparr>activeBlocks = [],
      storedSettings = \<lparr>stored_unblockDelayBase = None, stored_unblockDelayEscalation = None\<rparr>,
      pendingUnblocks = [], dailyAttempts = [], totalBlocksCreated = 0,
      alarms = [], writes = []\<rparr>"

definition exampleClock :: "int \<Rightarrow> clock" where
  "exampleClock t = \<lparr>Date_now = t, getCurrentDay = 3, getCurrentTime = ''10:00''\<rparr>"

definition exampleSchedule :: schedule where
  "exampleSchedule =
     \<lparr>domains = [''reddit.com''], startTime = ''09:00'', endTime = ''17:00'',
      days = [1, 2, 3, 4, 5], enabled = True\<rparr>"

section \<open>Properties\<close>

subsection \<open>Auxiliary facts\<close>

lemmas storage_defs =
  getActiveBlocks_def setActiveBlocks_def updateActiveBlocks_def getSettings_def
  updateStats_def getPendingUnblocks_def setPendingUnblocks_def updatePendingUnblocks_def
  getDailyAttempts_def updateDailyAttempts_def

lemma delete_as_filter: "AList.delete k al = filter (\<lambda>(k', v). k' \<noteq> k) al"
  by (induction al) (auto simp: AList.delete_eq)

lemma filter_absent_key: "map_of al k = None \<Longrightarrow> filter (\<lambda>(k', v). k' \<noteq> k) al = al"
  by (induction al) (auto split: if_splits)

lemma getProperty_Own: "map_of obj k = Some v \<Longrightarrow> getProperty obj k = Own v"
  by (simp add: getProperty_def)

lemma getProperty_Undefined_iff:
  "getProperty obj k = Undefined \<longleftrightarrow> map_of obj k = None \<and> k \<notin> set objectPrototypeNames"
  by (simp add: getProperty_def split: option.splits)

lemma getProperty_Own_iff: "getProperty obj k = Own v \<longleftrightarrow> map_of obj k = Some v"
  by (simp add: getProperty_def split: option.splits)

lemma setProperty_present: "map_of obj k = Some v \<Longrightarrow> setProperty k v' obj = AList.update k v' obj"
  by (simp add: setProperty_def)

lemma setProperty_not_proto: "k \<noteq> ''__proto__'' \<Longrightarrow> setProperty k v obj = AList.update k v obj"
  by (simp add: setProperty_def)

lemma toISODate_dash: "CHR ''-'' \<in> set (toISODate t)"
  by (simp add: toISODate_def Let_def split_beta)

lemma attemptKey_not_proto: "c @ ''_'' @ getTodayKey clk \<noteq> ''__proto__''"
proof
  assume "c @ ''_'' @ getTodayKey clk = ''__proto__''"
  then have "set (c @ ''_'' @ getTodayKey clk) = set ''__proto__''" by simp
  moreover have "CHR ''-'' \<in> set (c @ ''_'' @ getTodayKey clk)"
    using toISODate_dash [of "Date_now clk"] by (simp add: getTodayKey_def)
  ultimately show False by simp
qed


lemma validateDuration_JNumber:
  "\<bar>m\<bar> < 10 ^ 21 \<Longrightarrow>
   validateDuration P (JNumber m) =
     (if m < 1 then Inl DURATION_TOO_SHORT
      else if m > 480 then Inl DURATION_TOO_LONG else Inr m)"
  by (simp add: validateDuration_def parseInt_def MIN_BLOCK_MINUTES_def MAX_BLOCK_MINUTES_def)

lemma parseIntString_no_digit:
  assumes "list_all (\<lambda>c. \<not> isDigit c) str"
  shows "parseIntString str = NaN"
proof -
  define t where "t = dropWhile isWhiteSpace str"
  define r where "r = (if t \<noteq> [] \<and> (hd t = CHR ''-'' \<or> hd t = CHR ''+'') then tl t else t)"
  have "set t \<subseteq> set str"
    unfolding t_def by (rule set_dropWhileD [THEN subsetI])
  moreover have "set r \<subseteq> set t"
    by (cases t) (auto simp: r_def)
  ultimately have "set r \<subseteq> set str" by simp
  with assms have "\<forall>c \<in> set r. \<not> isDigit c" by (auto simp: list_all_iff)
  then have "takeWhile isDigit r = []" by (cases r) auto
  then show ?thesis
    by (simp add: parseIntString_def Let_def t_def [symmetric] r_def [symmetric])
qed

subsection \<open>Domain matching\<close>

text \<open>
  C4 (as amended). \<open>domainMatches\<close> lower-cases both arguments before it compares them:
  for all strings \<open>a\<close> and \<open>b\<close> it returns true if and only if both are non-empty and
  the lower-cased \<open>a\<close> equals the lower-cased \<open>b\<close> or ends with a dot followed by the
  lower-cased \<open>b\<close>. For non-empty arguments that are already in lower case this is
  \<open>a = b\<close> or \<open>a\<close> ends with \<open>"." + b\<close>. \<open>notexample.com\<close> does not match
  \<open>example.com\<close>, and \<open>example.com\<close> does not match \<open>sub.example.com\<close>.
\<close>

theorem domainMatches_iff_lowercase:
  "(domainMatches a b \<longleftrightarrow>
      a \<noteq> [] \<and> b \<noteq> [] \<and>
      (toLowerCase a = toLowerCase b \<or> endsWith (toLowerCase a) (''.'' @ toLowerCase b)))
   \<and> (a \<noteq> [] \<and> b \<noteq> [] \<and> toLowerCase a = a \<and> toLowerCase b = b \<longrightarrow>
        (domainMatches a b \<longleftrightarrow> a = b \<or> endsWith a (''.'' @ b)))
   \<and> \<not> domainMatches ''notexample.com'' ''example.com''
   \<and> \<not> domainMatches ''example.com'' ''sub.example.com''"
proof (intro conjI)
  show gen: "domainMatches a b \<longleftrightarrow>
      a \<noteq> [] \<and> b \<noteq> [] \<and>
      (toLowerCase a = toLowerCase b \<or> endsWith (toLowerCase a) (''.'' @ toLowerCase b))"
    by (simp add: domainMatches_def Let_def)
  show "a \<noteq> [] \<and> b \<noteq> [] \<and> toLowerCase a = a \<and> toLowerCase b = b \<longrightarrow>
        (domainMatches a b \<longleftrightarrow> a = b \<or> endsWith a (''.'' @ b))"
    by (simp add: domainMatches_def Let_def)
  show "\<not> domainMatches ''notexample.com'' ''example.com''"
    by code_simp
  show "\<not> domainMatches ''example.com'' ''sub.example.com''"
    by code_simp
qed

theorem domainMatches_iff_lowercase_witness:
  "''sub.example.com'' \<noteq> [] \<and> ''example.com'' \<noteq> []
   \<and> toLowerCase ''sub.example.com'' = ''sub.example.com''
   \<and> toLowerCase ''example.com'' = ''example.com''
   \<and> domainMatches ''sub.example.com'' ''example.com''
   \<and> endsWith ''sub.example.com'' (''.'' @ ''example.com'')"
proof -
  have l1: "toLowerCase ''sub.example.com'' = ''sub.example.com''" by code_simp
  have l2: "toLowerCase ''example.com'' = ''example.com''" by code_simp
  have e: "endsWith ''sub.example.com'' (''.'' @ ''example.com'')" by code_simp
  from domainMatches_iff_lowercase [of "''sub.example.com''" "''example.com''"] l1 l2 e
  have "domainMatches ''sub.example.com'' ''example.com''" by simp
  with l1 l2 e show ?thesis by simp
qed

text \<open>
  The claim as it is written, for all non-empty strings, fails on arguments that differ
  in case only: \<open>A.com\<close> matches \<open>a.com\<close>.
\<close>

theorem domainMatches_case_counterexample:
  "\<not> (domainMatches ''A.com'' ''a.com'' \<longleftrightarrow>
        (''A.com'' = ''a.com'' \<or> endsWith ''A.com'' (''.'' @ ''a.com'')))"
  by code_simp

subsection \<open>Block registry\<close>

text \<open>
  For a valid domain and an integer duration \<open>m\<close> of magnitude below \<open>10\<^sup>2\<^sup>1\<close>, \<open>add\<close>
  succeeds exactly when \<open>1 \<le> m \<le> 480\<close>: below 1 it fails with \<open>duration_too_short\<close>,
  above 480 with \<open>duration_too_long\<close>, and in both cases the store is unchanged; on
  success the block is stored with \<open>until = now + m * 60 s\<close> and the counter of created
  blocks goes up by one. A string without any decimal digit and a missing duration are
  rejected with \<open>invalid_duration\<close>.
\<close>

lemma add_duration_bounds:
  assumes "validateDomain P domain = Inr cleanDomain"
      and "\<bar>m\<bar> < 10 ^ 21"
      and "list_all (\<lambda>c. \<not> isDigit c) str"
  shows "add P clk domain (JNumber m) r s =
           (if m < 1 then (Inl (FocusGuardError DURATION_TOO_SHORT None), s)
            else if m > 480 then (Inl (FocusGuardError DURATION_TOO_LONG None), s)
            else (Inr cleanDomain,
                  s\<lparr>activeBlocks :=
                       AList.update cleanDomain
                         \<lparr>until = Date_now clk + m * 60 * 1000, blockedAt = Date_now clk,
                          reason = r\<rparr> (activeBlocks s),
                     totalBlocksCreated := totalBlocksCreated s + 1,
                     writes := writes s @ [ACTIVE_BLOCKS, STATS]\<rparr>))
         \<and> add P clk domain (JString str) r s = (Inl (FocusGuardError INVALID_DURATION None), s)
         \<and> add P clk domain JUndefined r s = (Inl (FocusGuardError INVALID_DURATION None), s)"
proof -
  have num: "add P clk domain (JNumber m) r s =
           (if m < 1 then (Inl (FocusGuardError DURATION_TOO_SHORT None), s)
            else if m > 480 then (Inl (FocusGuardError DURATION_TOO_LONG None), s)
            else (Inr cleanDomain,
                  s\<lparr>activeBlocks :=
                       AList.update cleanDomain
                         \<lparr>until = Date_now clk + m * 60 * 1000, blockedAt = Date_now clk,
                          reason = r\<rparr> (activeBlocks s),
                     totalBlocksCreated := totalBlocksCreated s + 1,
                     writes := writes s @ [ACTIVE_BLOCKS, STATS]\<rparr>))"
    using assms(1) by (simp add: add_def validateDuration_JNumber [OF assms(2)] storage_defs Let_def)
  have str: "add P clk domain (JString str) r s = (Inl (FocusGuardError INVALID_DURATION None), s)"
    using assms(1,3)
    by (simp add: add_def validateDuration_def parseInt_def parseIntString_no_digit)
  have und: "add P clk domain JUndefined r s = (Inl (FocusGuardError INVALID_DURATION None), s)"
    using assms(1) by (simp add: add_def validateDuration_def parseInt_def)
  from num str und show ?thesis by simp
qed

text \<open>
  C6. The claim is that \<open>add\<close> accepts an integer duration exactly when it is between 1
  and 480, fails with \<open>duration_too_long\<close> above 480, and rejects a duration that is not
  a number with \<open>invalid_duration\<close>. \<open>validateDuration\<close> reads the duration with
  \<open>parseInt\<close>, which works on the string of its argument and stops at the first character
  that is not a digit. So the number \<open>10\<^sup>2\<^sup>1\<close>, whose string is \<open>1e+21\<close>, is read as 1: the
  call succeeds and stores a block of one minute. And the string \<open>12abc\<close> is read as 12:
  the call succeeds and stores a block of twelve minutes.
\<close>

theorem add_accepts_exponent_and_prefix:
  "add examplePlatform (exampleClock 1000) ''youtube.com'' (JNumber 1000000000000000000000)
       MANUAL emptyStore
     = (Inr ''youtube.com'',
        emptyStore\<lparr>activeBlocks :=
                     [(''youtube.com'', \<lparr>until = 61000, blockedAt = 1000, reason = MANUAL\<rparr>)],
                   totalBlocksCreated := 1, writes := [ACTIVE_BLOCKS, STATS]\<rparr>)
   \<and> add examplePlatform (exampleClock 1000) ''youtube.com'' (JString ''12abc'')
       MANUAL emptyStore
     = (Inr ''youtube.com'',
        emptyStore\<lparr>activeBlocks :=
                     [(''youtube.com'', \<lparr>until = 721000, blockedAt = 1000, reason = MANUAL\<rparr>)],
                   totalBlocksCreated := 1, writes := [ACTIVE_BLOCKS, STATS]\<rparr>)"
  by code_simp

text \<open>
  For a domain that normalizes to a non-empty \<open>cleanDomain\<close>, \<open>remove\<close> leaves the block
  map without the entry of \<open>cleanDomain\<close> and the pending-unblock map without the entry
  of \<open>cleanDomain\<close>, all other entries of both maps being kept in their order, whether
  or not a block was found. It fails with \<open>block_not_found\<close> exactly when the domain had
  no block entry and is not the name of a member of \<open>Object.prototype\<close>.
\<close>

lemma remove_deletes_block_and_pending:
  assumes "extractDomain P domain = Some cleanDomain" and "cleanDomain \<noteq> []"
  shows "activeBlocks (snd (remove P domain s))
           = filter (\<lambda>(k, info). k \<noteq> cleanDomain) (activeBlocks s)
         \<and> pendingUnblocks (snd (remove P domain s))
           = filter (\<lambda>(k, p). k \<noteq> cleanDomain) (pendingUnblocks s)
         \<and> (fst (remove P domain s) = Inl (FocusGuardError BLOCK_NOT_FOUND None)
              \<longleftrightarrow> map_of (activeBlocks s) cleanDomain = None
                  \<and> cleanDomain \<notin> set objectPrototypeNames)
         \<and> (fst (remove P domain s) = Inr cleanDomain
              \<longleftrightarrow> map_of (activeBlocks s) cleanDomain \<noteq> None
                  \<or> cleanDomain \<in> set objectPrototypeNames)"
proof (cases "map_of (activeBlocks s) cleanDomain")
  case None
  with assms show ?thesis
    by (simp add: remove_def storage_defs Let_def delete_as_filter filter_absent_key
                  getProperty_Undefined_iff)
next
  case (Some info)
  with assms show ?thesis
    by (simp add: remove_def storage_defs Let_def delete_as_filter getProperty_Undefined_iff)
qed

text \<open>
  C7. The claim is that \<open>remove\<close> signals \<open>block_not_found\<close> exactly when the domain had
  no block entry. \<open>remove\<close> tests \<open>blocks[cleanDomain]\<close> on a plain object, and the test
  also finds the members that the object inherits: with no block stored at all, \<open>remove\<close>
  of \<open>constructor\<close> and of \<open>__proto__\<close> reports the domain as removed. For
  \<open>example.com\<close>, on the same store, it fails with \<open>block_not_found\<close>.
\<close>

theorem remove_inherited_member_found:
  "remove examplePlatform ''constructor'' emptyStore
     = (Inr ''constructor'', emptyStore\<lparr>writes := [ACTIVE_BLOCKS, PENDING_UNBLOCKS]\<rparr>)
   \<and> remove examplePlatform ''__proto__'' emptyStore
     = (Inr ''__proto__'', emptyStore\<lparr>writes := [ACTIVE_BLOCKS, PENDING_UNBLOCKS]\<rparr>)
   \<and> remove examplePlatform ''example.com'' emptyStore
     = (Inl (FocusGuardError BLOCK_NOT_FOUND None),
        emptyStore\<lparr>writes := [ACTIVE_BLOCKS, PENDING_UNBLOCKS]\<rparr>)"
  by code_simp

text \<open>
  C8. At a fixed instant, \<open>getAll\<close> returns the entries that have not expired, in their
  order. A second call on the store that the first call left returns the same entries
  and leaves the store as it is, the list of storage writes included. The first call
  writes the pruned map exactly when some entry had expired, and otherwise leaves the
  store as it is.
\<close>

theorem getAll_idempotent:
  "getAll clk (snd (getAll clk s)) = getAll clk s
   \<and> fst (getAll clk s) = filter (\<lambda>(domain, info). Date_now clk < until info) (activeBlocks s)
   \<and> snd (getAll clk (snd (getAll clk s))) = snd (getAll clk s)
   \<and> writes (snd (getAll clk s)) =
       (if list_ex (\<lambda>(domain, info). until info \<le> Date_now clk) (activeBlocks s)
        then writes s @ [ACTIVE_BLOCKS] else writes s)
   \<and> (snd (getAll clk s) = s \<longleftrightarrow>
        \<not> list_ex (\<lambda>(domain, info). until info \<le> Date_now clk) (activeBlocks s))"
proof -
  have ex: "list_ex (\<lambda>(domain, info). \<not> Date_now clk < until info) bs
            = list_ex (\<lambda>(domain, info). until info \<le> Date_now clk) bs" for bs
    by (rule arg_cong [where f = "\<lambda>p. list_ex p bs"]) (auto simp: fun_eq_iff)
  have none: "\<not> list_ex (\<lambda>(domain, info). until info \<le> Date_now clk)
                (filter (\<lambda>(domain, info). Date_now clk < until info) bs)" for bs
    by (auto simp: list_ex_iff)
  have neq: "s\<lparr>activeBlocks := bs, writes := writes s @ [ACTIVE_BLOCKS]\<rparr> \<noteq> s" for bs
  proof
    assume "s\<lparr>activeBlocks := bs, writes := writes s @ [ACTIVE_BLOCKS]\<rparr> = s"
    then have "writes (s\<lparr>activeBlocks := bs, writes := writes s @ [ACTIVE_BLOCKS]\<rparr>) = writes s"
      by simp
    then show False by simp
  qed
  show ?thesis
    by (simp add: getAll_def storage_defs Let_def ex none neq)
qed

subsection \<open>Unblock throttle\<close>

lemma ceilDiv_bounds: "ceilDiv x 1000 * 1000 - 1000 < x \<and> x \<le> ceilDiv x 1000 * 1000"
proof -
  have e: "(- x) div 1000 * 1000 + (- x) mod 1000 = - x" by (rule div_mult_mod_eq)
  have "0 \<le> (- x) mod 1000" and "(- x) mod 1000 < 1000" by simp_all
  with e show ?thesis unfolding ceilDiv_def by linarith
qed

lemma ceilDiv_pos_iff: "0 < ceilDiv x 1000 \<longleftrightarrow> 0 < x"
  using ceilDiv_bounds [of x] by linarith

lemma ceilDiv_le_iff: "ceilDiv x 1000 \<le> w \<longleftrightarrow> x \<le> w * 1000"
  using ceilDiv_bounds [of x] by linarith

lemma setProperty_attemptKey:
  "setProperty (c @ CHR ''_'' # getTodayKey clk) v obj =
     AList.update (c @ CHR ''_'' # getTodayKey clk) v obj"
  using setProperty_not_proto [OF attemptKey_not_proto, of c clk v obj] by simp

lemma request_proceeds:
  assumes ed: "extractDomain P domain = Some c" and ne: "c \<noteq> []"
      and free: "\<forall>p. map_of (pendingUnblocks s) c = Some p \<longrightarrow> unlocksAt p \<le> Date_now clk"
  shows "request P clk domain s =
          (let N = (case map_of (dailyAttempts s) (c @ ''_'' @ getTodayKey clk) of
                      None \<Rightarrow> 0 | Some n \<Rightarrow> n) + 1;
               base = (if unblockDelayBase (getSettings s) = 0 then 5
                       else unblockDelayBase (getSettings s));
               delay = (if unblockDelayEscalation (getSettings s) \<and> N > 1
                        then min 15 (base + (N - 1) * 5) else base)
           in (Inr \<lparr>waitTime = delay * 60,
                 response_unlocksAt = Date_now clk + delay * 60 * 1000,
                 response_attemptNumber = N\<rparr>,
            s\<lparr>dailyAttempts := AList.update (c @ ''_'' @ getTodayKey clk) N (dailyAttempts s),
              pendingUnblocks :=
                setProperty c \<lparr>requestedAt = Date_now clk,
                                unlocksAt = Date_now clk + delay * 60 * 1000,
                                attemptNumber = N\<rparr> (pendingUnblocks s),
              alarms := AList.update (UNBLOCK_PREFIX @ c) (Date_now clk + delay * 60 * 1000)
                          (alarms s),
              writes := writes s @ [DAILY_ATTEMPTS, PENDING_UNBLOCKS]\<rparr>))"
proof -
  define remaining where
    "remaining = (case getProperty (getPendingUnblocks s) c of
                    Own p \<Rightarrow> Some (ceilDiv (unlocksAt p - Date_now clk) 1000)
                  | Inherited \<Rightarrow> None | Undefined \<Rightarrow> None)"
  have gate: "\<not> (remaining \<noteq> None \<and> the remaining > 0)"
    using free
    by (auto simp: remaining_def ceilDiv_pos_iff getPendingUnblocks_def getProperty_Own_iff
             split: property.splits)
  show ?thesis
    unfolding request_def Let_def
    apply (simp only: ed option.case ne if_False remaining_def [symmetric] gate)
    apply (simp add: getPendingUnblocks_def getDailyAttempts_def
          updateDailyAttempts_def updatePendingUnblocks_def setPendingUnblocks_def
          setProperty_attemptKey
          UNBLOCK_DELAY_BASE_MINUTES_def UNBLOCK_DELAY_MAX_MINUTES_def
          UNBLOCK_DELAY_ESCALATION_MINUTES_def)
    done
qed

lemma request_rejected:
  assumes "extractDomain P domain = Some c" and "c \<noteq> []"
      and "map_of (pendingUnblocks s) c = Some p" and "Date_now clk < unlocksAt p"
  shows "request P clk domain s =
           (Inl (FocusGuardError UNBLOCK_PENDING
                   (Some (ceilDiv (unlocksAt p - Date_now clk) 1000))), s)"
  using assms
  by (simp add: request_def Let_def getPendingUnblocks_def ceilDiv_pos_iff getProperty_Own)

lemma map_of_update_same: "map_of (AList.update k v al) k = Some v"
  by (simp add: AList.update_conv')

lemma keys_update_present:
  "map_of al k = Some v \<Longrightarrow> map fst (AList.update k v' al) = map fst al"
  by (induction al) (auto split: if_splits)

lemma count_key_distinct:
  "distinct (map fst al) \<Longrightarrow> map_of al k = Some v
   \<Longrightarrow> length (filter (\<lambda>(k', v'). k' = k) al) = 1"
proof (induction al)
  case Nil
  then show ?case by simp
next
  case (Cons a al)
  show ?case
  proof (cases "fst a = k")
    case True
    with Cons.prems have "k \<notin> fst ` set al" by auto
    then have "filter (\<lambda>(k', v'). k' = k) al = []"
      by (force simp: filter_empty_conv)
    with True show ?thesis by (cases a) simp
  next
    case False
    with Cons show ?thesis by (cases a) auto
  qed
qed
lemma setProperty_stored:
  "map_of (setProperty k v obj) k \<noteq> None \<Longrightarrow> map_of (setProperty k v obj) k = Some v"
  by (auto simp: setProperty_def map_of_update_same split: if_splits)




text \<open>
  C10. If the domain has a pending unblock whose \<open>unlocksAt\<close> has passed, \<open>request\<close>
  does not fail: it succeeds with attempt number \<open>N\<close>, today's count plus one, stores
  \<open>N\<close> as today's count, computes the delay from \<open>N\<close> (escalated when escalation is
  enabled and \<open>N > 1\<close>), and overwrites the old entry in place. The keys of the pending
  map are the same as before, so they stay distinct, and exactly one entry is keyed by
  the domain.
\<close>

theorem request_after_elapsed_pending:
  assumes "extractDomain P domain = Some c" and "c \<noteq> []"
      and "map_of (pendingUnblocks s) c = Some p" and "unlocksAt p \<le> Date_now clk"
      and "distinct (map fst (pendingUnblocks s))"
      and "N = (case map_of (dailyAttempts s) (c @ ''_'' @ getTodayKey clk) of
                  None \<Rightarrow> 0 | Some n \<Rightarrow> n) + 1"
      and "base = (if unblockDelayBase (getSettings s) = 0 then 5
                   else unblockDelayBase (getSettings s))"
      and "delay = (if unblockDelayEscalation (getSettings s) \<and> N > 1
                    then min 15 (base + (N - 1) * 5) else base)"
  shows "fst (request P clk domain s) =
           Inr \<lparr>waitTime = delay * 60,
                response_unlocksAt = Date_now clk + delay * 60 * 1000,
                response_attemptNumber = N\<rparr>
         \<and> map_of (dailyAttempts (snd (request P clk domain s))) (c @ ''_'' @ getTodayKey clk)
             = Some N
         \<and> map_of (pendingUnblocks (snd (request P clk domain s))) c =
             Some \<lparr>requestedAt = Date_now clk,
                   unlocksAt = Date_now clk + delay * 60 * 1000,
                   attemptNumber = N\<rparr>
         \<and> map fst (pendingUnblocks (snd (request P clk domain s))) = map fst (pendingUnblocks s)
         \<and> distinct (map fst (pendingUnblocks (snd (request P clk domain s))))
         \<and> length (filter (\<lambda>(k, q). k = c) (pendingUnblocks (snd (request P clk domain s)))) = 1"
proof -
  have free: "\<forall>q. map_of (pendingUnblocks s) c = Some q \<longrightarrow> unlocksAt q \<le> Date_now clk"
    using assms(3,4) by simp
  note r = request_proceeds [OF assms(1,2) free]
  let ?new = "\<lparr>requestedAt = Date_now clk, unlocksAt = Date_now clk + delay * 60 * 1000,
               attemptNumber = N\<rparr>"
  have sp: "setProperty c ?new (pendingUnblocks s) = AList.update c ?new (pendingUnblocks s)"
    using assms(3) by (rule setProperty_present)
  have keys: "map fst (AList.update c ?new (pendingUnblocks s)) = map fst (pendingUnblocks s)"
    using assms(3) by (rule keys_update_present)
  have dist: "distinct (map fst (AList.update c ?new (pendingUnblocks s)))"
    using assms(5) by (rule AList.distinct_update)
  have one: "length (filter (\<lambda>(k, q). k = c) (AList.update c ?new (pendingUnblocks s))) = 1"
    using dist by (rule count_key_distinct) (rule map_of_update_same)
  show ?thesis
    unfolding r Let_def assms(7) [symmetric] assms(6) [symmetric] assms(8) [symmetric] sp
    using keys dist one by (simp add: map_of_update_same)
qed

theorem request_after_elapsed_pending_witness:
  "extractDomain examplePlatform ''youtube.com'' = Some ''youtube.com''
   \<and> fst (request examplePlatform (exampleClock 700000) ''youtube.com''
          (emptyStore\<lparr>pendingUnblocks :=
               [(''youtube.com'', \<lparr>requestedAt = 0, unlocksAt = 300000, attemptNumber = 1\<rparr>)],
             dailyAttempts := [(''youtube.com_1970-01-01'', 1)]\<rparr>))
       = Inr \<lparr>waitTime = 600, response_unlocksAt = 1300000, response_attemptNumber = 2\<rparr>
   \<and> pendingUnblocks (snd (request examplePlatform (exampleClock 700000) ''youtube.com''
          (emptyStore\<lparr>pendingUnblocks :=
               [(''youtube.com'', \<lparr>requestedAt = 0, unlocksAt = 300000, attemptNumber = 1\<rparr>)],
             dailyAttempts := [(''youtube.com_1970-01-01'', 1)]\<rparr>)))
       = [(''youtube.com'', \<lparr>requestedAt = 700000, unlocksAt = 1300000, attemptNumber = 2\<rparr>)]"
proof -
  let ?s = "emptyStore\<lparr>pendingUnblocks :=
               [(''youtube.com'', \<lparr>requestedAt = 0, unlocksAt = 300000, attemptNumber = 1\<rparr>)],
             dailyAttempts := [(''youtube.com_1970-01-01'', 1)]\<rparr>"
  have e: "extractDomain examplePlatform ''youtube.com'' = Some ''youtube.com''" by code_simp
  have n: "''youtube.com'' \<noteq> []" by simp
  have p: "map_of (pendingUnblocks ?s) ''youtube.com''
             = Some \<lparr>requestedAt = 0, unlocksAt = 300000, attemptNumber = 1\<rparr>"
    by (simp add: emptyStore_def)
  have el: "unlocksAt \<lparr>requestedAt = 0, unlocksAt = 300000, attemptNumber = 1\<rparr>
              \<le> Date_now (exampleClock 700000)"
    by (simp add: exampleClock_def)
  have di: "distinct (map fst (pendingUnblocks ?s))" by (simp add: emptyStore_def)
  have k: "getTodayKey (exampleClock 700000) = ''1970-01-01''" by code_simp
  have N: "(2::int) = (case map_of (dailyAttempts ?s)
                              (''youtube.com'' @ ''_'' @ getTodayKey (exampleClock 700000)) of
                         None \<Rightarrow> 0 | Some n \<Rightarrow> n) + 1"
    by (simp add: emptyStore_def k)
  have b: "(5::int) = (if unblockDelayBase (getSettings ?s) = 0 then 5
                       else unblockDelayBase (getSettings ?s))"
    by (simp add: emptyStore_def getSettings_def UNBLOCK_DELAY_BASE_MINUTES_def)
  have d: "(10::int) = (if unblockDelayEscalation (getSettings ?s) \<and> (2::int) > 1
                        then min 15 (5 + (2 - 1) * 5) else 5)"
    by (simp add: emptyStore_def getSettings_def)
  have upd: "pendingUnblocks (snd (request examplePlatform (exampleClock 700000) ''youtube.com'' ?s))
       = [(''youtube.com'', \<lparr>requestedAt = 700000, unlocksAt = 1300000, attemptNumber = 2\<rparr>)]"
    by code_simp
  from request_after_elapsed_pending [OF e n p el di N b d] e upd
  show ?thesis by (simp add: exampleClock_def)
qed

text \<open>
  C5. Let a \<open>request\<close> have succeeded and have stored a pending unblock for the domain,
  and let that pending unblock still be in the store. A second \<open>request\<close> for the domain
  at a clock reading that is not earlier than the first and is before \<open>unlocksAt\<close> fails
  with \<open>unblock_pending\<close>. The remaining time it carries is the ceiling of the remaining
  milliseconds in seconds, is strictly positive and is at most the wait time granted by
  the first request. The store is returned as it was: the pending unblock and the daily
  attempt counter are unchanged.
\<close>

theorem second_request_rejected:
  assumes "extractDomain P domain = Some c" and "c \<noteq> []"
      and "request P clk1 domain s = (Inr resp, s1)"
      and "map_of (pendingUnblocks s1) c \<noteq> None"
      and "map_of (pendingUnblocks s2) c = map_of (pendingUnblocks s1) c"
      and "Date_now clk1 \<le> Date_now clk2"
      and "Date_now clk2 < response_unlocksAt resp"
  shows "request P clk2 domain s2 =
           (Inl (FocusGuardError UNBLOCK_PENDING
                   (Some (ceilDiv (response_unlocksAt resp - Date_now clk2) 1000))), s2)
         \<and> 0 < ceilDiv (response_unlocksAt resp - Date_now clk2) 1000
         \<and> ceilDiv (response_unlocksAt resp - Date_now clk2) 1000 \<le> waitTime resp
         \<and> pendingUnblocks (snd (request P clk2 domain s2)) = pendingUnblocks s2
         \<and> dailyAttempts (snd (request P clk2 domain s2)) = dailyAttempts s2"
proof -
  have free: "\<forall>p. map_of (pendingUnblocks s) c = Some p \<longrightarrow> unlocksAt p \<le> Date_now clk1"
  proof (intro allI impI)
    fix p assume p: "map_of (pendingUnblocks s) c = Some p"
    show "unlocksAt p \<le> Date_now clk1"
    proof (rule ccontr)
      assume "\<not> unlocksAt p \<le> Date_now clk1"
      then have "Date_now clk1 < unlocksAt p" by simp
      from request_rejected [OF assms(1,2) p this] assms(3) show False by simp
    qed
  qed
  let ?new = "\<lparr>requestedAt = Date_now clk1, unlocksAt = response_unlocksAt resp,
               attemptNumber = response_attemptNumber resp\<rparr>"
  from request_proceeds [OF assms(1,2) free] assms(3)
  have s1: "pendingUnblocks s1 = setProperty c ?new (pendingUnblocks s)"
    and ua: "response_unlocksAt resp = Date_now clk1 + waitTime resp * 1000"
    by (auto simp: Let_def)
  from assms(4) have "map_of (pendingUnblocks s1) c = Some ?new"
    unfolding s1 by (rule setProperty_stored)
  with assms(5) have pend: "map_of (pendingUnblocks s2) c = Some ?new"
    by simp
  have lt: "Date_now clk2 < unlocksAt ?new"
    using assms(7) by simp
  have rej: "request P clk2 domain s2 =
           (Inl (FocusGuardError UNBLOCK_PENDING
                   (Some (ceilDiv (response_unlocksAt resp - Date_now clk2) 1000))), s2)"
    using request_rejected [OF assms(1,2) pend lt] by simp
  have pos: "0 < ceilDiv (response_unlocksAt resp - Date_now clk2) 1000"
    using assms(7) by (simp add: ceilDiv_pos_iff)
  have le: "ceilDiv (response_unlocksAt resp - Date_now clk2) 1000 \<le> waitTime resp"
    using assms(6) ua by (simp add: ceilDiv_le_iff)
  from rej pos le show ?thesis by simp
qed

theorem second_request_rejected_witness:
  "extractDomain examplePlatform ''youtube.com'' = Some ''youtube.com''
   \<and> fst (request examplePlatform (exampleClock 1000) ''youtube.com'' emptyStore)
       = Inr \<lparr>waitTime = 300, response_unlocksAt = 301000, response_attemptNumber = 1\<rparr>
   \<and> map_of (pendingUnblocks
         (snd (request examplePlatform (exampleClock 1000) ''youtube.com'' emptyStore)))
       ''youtube.com''
       = Some \<lparr>requestedAt = 1000, unlocksAt = 301000, attemptNumber = 1\<rparr>
   \<and> fst (request examplePlatform (exampleClock 61500) ''youtube.com''
            (snd (request examplePlatform (exampleClock 1000) ''youtube.com'' emptyStore)))
       = Inl (FocusGuardError UNBLOCK_PENDING (Some 240))"
proof -
  have e: "extractDomain examplePlatform ''youtube.com'' = Some ''youtube.com''" by code_simp
  have n: "''youtube.com'' \<noteq> []" by simp
  have f: "fst (request examplePlatform (exampleClock 1000) ''youtube.com'' emptyStore)
       = Inr \<lparr>waitTime = 300, response_unlocksAt = 301000, response_attemptNumber = 1\<rparr>"
    by code_simp
  then have r: "request examplePlatform (exampleClock 1000) ''youtube.com'' emptyStore
       = (Inr \<lparr>waitTime = 300, response_unlocksAt = 301000, response_attemptNumber = 1\<rparr>,
          snd (request examplePlatform (exampleClock 1000) ''youtube.com'' emptyStore))"
    by (simp add: prod_eq_iff)
  have st: "map_of (pendingUnblocks
         (snd (request examplePlatform (exampleClock 1000) ''youtube.com'' emptyStore)))
       ''youtube.com''
       = Some \<lparr>requestedAt = 1000, unlocksAt = 301000, attemptNumber = 1\<rparr>"
    by code_simp
  then have own: "map_of (pendingUnblocks
         (snd (request examplePlatform (exampleClock 1000) ''youtube.com'' emptyStore)))
       ''youtube.com'' \<noteq> None"
    by simp
  have m: "Date_now (exampleClock 1000) \<le> Date_now (exampleClock 61500)"
    by (simp add: exampleClock_def)
  have b: "Date_now (exampleClock 61500)
             < response_unlocksAt
                 \<lparr>waitTime = 300, response_unlocksAt = 301000, response_attemptNumber = 1\<rparr>"
    by (simp add: exampleClock_def)
  have c: "ceilDiv (301000 - 61500) 1000 = 240" by code_simp
  from second_request_rejected [OF e n r own refl m b] e f st c
  show ?thesis by (simp add: exampleClock_def)
qed

lemma domainMatches_self: "c \<noteq> [] \<Longrightarrow> domainMatches c c"
  by (simp add: domainMatches_def)

lemma isBlocked_iff:
  assumes "extractDomain P domain = Some c" and "c \<noteq> []"
  shows "fst (isBlocked P clk domain t) =
           (c \<in> set objectPrototypeNames
            \<or> list_ex (\<lambda>(k, info). Date_now clk < until info \<and> domainMatches c k)
                 (activeBlocks t))"
proof -
  let ?blocks = "filter (\<lambda>(domain, info). Date_now clk < until info) (activeBlocks t)"
  have g: "fst (getAll clk t) = ?blocks"
    by (simp add: getAll_def Let_def getActiveBlocks_def)
  have i: "fst (isBlocked P clk domain t) =
             (getProperty ?blocks c \<noteq> Undefined \<or> list_ex (domainMatches c) (map fst ?blocks))"
    using assms g by (simp add: isBlocked_def split_beta)
  have u: "getProperty ?blocks c \<noteq> Undefined \<longleftrightarrow>
             map_of ?blocks c \<noteq> None \<or> c \<in> set objectPrototypeNames"
    by (simp add: getProperty_Undefined_iff)
  have d: "map_of ?blocks c \<noteq> None \<Longrightarrow> list_ex (domainMatches c) (map fst ?blocks)"
  proof -
    assume "map_of ?blocks c \<noteq> None"
    then obtain info where "map_of ?blocks c = Some info" by auto
    then have "(c, info) \<in> set ?blocks" by (rule map_of_SomeD)
    then have "c \<in> set (map fst ?blocks)" by force
    with domainMatches_self [OF assms(2)] show ?thesis
      unfolding list_ex_iff by blast
  qed
  have "list_ex (domainMatches c) (map fst ?blocks) =
          list_ex (\<lambda>(k, info). Date_now clk < until info \<and> domainMatches c k) (activeBlocks t)"
    by (auto simp: list_ex_iff)
  with i u d show ?thesis by blast
qed

lemma remove_clean:
  assumes "extractDomain P c = Some c" and "c \<noteq> []"
  shows "remove P c s =
           (if map_of (activeBlocks s) c = None \<and> c \<notin> set objectPrototypeNames
            then (Inl (FocusGuardError BLOCK_NOT_FOUND None),
                  s\<lparr>pendingUnblocks := filter (\<lambda>(k, q). k \<noteq> c) (pendingUnblocks s),
                    writes := writes s @ [ACTIVE_BLOCKS, PENDING_UNBLOCKS]\<rparr>)
            else (Inr c,
                  s\<lparr>activeBlocks := filter (\<lambda>(k, info). k \<noteq> c) (activeBlocks s),
                    pendingUnblocks := filter (\<lambda>(k, q). k \<noteq> c) (pendingUnblocks s),
                    writes := writes s @ [ACTIVE_BLOCKS, PENDING_UNBLOCKS]\<rparr>))"
  using assms
  by (simp add: remove_def storage_defs Let_def delete_as_filter getProperty_Undefined_iff)

text \<open>
  C2 (as amended). Let the domain normalize to \<open>c\<close>, let \<open>c\<close> normalize to itself and not
  be the name of a member of \<open>Object.prototype\<close>, and let \<open>c\<close> have a pending unblock
  \<open>p\<close> and a block entry. \<open>confirm\<close> compares \<open>unlocksAt p\<close> with the clock reading of
  its own call. Before \<open>unlocksAt p\<close> it fails with \<open>unblock_delay_not_complete\<close>, carries
  the strictly positive ceiling of the remaining milliseconds in seconds, and leaves the
  store as it is. At or after \<open>unlocksAt p\<close> it calls \<open>remove\<close> and succeeds, and the block
  entry and the pending entry of \<open>c\<close> are deleted. After that, \<open>isBlocked\<close> is true
  exactly when some other unexpired block is keyed by a domain that \<open>c\<close> matches as a
  subdomain; it is false when there is none.
\<close>

theorem confirm_gate:
  assumes "extractDomain P domain = Some c" and "c \<noteq> []"
      and "extractDomain P c = Some c"
      and "c \<notin> set objectPrototypeNames"
      and "map_of (pendingUnblocks s) c = Some p"
      and "map_of (activeBlocks s) c = Some e"
  shows "confirm P clk domain s =
           (if Date_now clk < unlocksAt p
            then (Inl (FocusGuardError UNBLOCK_DELAY_NOT_COMPLETE
                         (Some (ceilDiv (unlocksAt p - Date_now clk) 1000))), s)
            else (Inr c,
                  s\<lparr>activeBlocks := filter (\<lambda>(k, info). k \<noteq> c) (activeBlocks s),
                    pendingUnblocks := filter (\<lambda>(k, q). k \<noteq> c) (pendingUnblocks s),
                    writes := writes s @ [ACTIVE_BLOCKS, PENDING_UNBLOCKS, PENDING_UNBLOCKS]\<rparr>))
         \<and> (Date_now clk < unlocksAt p \<longleftrightarrow> 0 < ceilDiv (unlocksAt p - Date_now clk) 1000)
         \<and> fst (isBlocked P clk' domain (snd (confirm P clk domain s))) =
             (if Date_now clk < unlocksAt p
              then list_ex (\<lambda>(k, info). Date_now clk' < until info \<and> domainMatches c k)
                     (activeBlocks s)
              else list_ex (\<lambda>(k, info). k \<noteq> c \<and> Date_now clk' < until info \<and> domainMatches c k)
                     (activeBlocks s))"
proof -
  have c: "confirm P clk domain s =
           (if Date_now clk < unlocksAt p
            then (Inl (FocusGuardError UNBLOCK_DELAY_NOT_COMPLETE
                         (Some (ceilDiv (unlocksAt p - Date_now clk) 1000))), s)
            else (Inr c,
                  s\<lparr>activeBlocks := filter (\<lambda>(k, info). k \<noteq> c) (activeBlocks s),
                    pendingUnblocks := filter (\<lambda>(k, q). k \<noteq> c) (pendingUnblocks s),
                    writes := writes s @ [ACTIVE_BLOCKS, PENDING_UNBLOCKS, PENDING_UNBLOCKS]\<rparr>))"
    using assms(1,2,5,6)
    by (simp add: confirm_def Let_def getPendingUnblocks_def remove_clean [OF assms(3,2)]
          getProperty_Own updatePendingUnblocks_def setPendingUnblocks_def delete_as_filter)
  have blocks: "activeBlocks (snd (confirm P clk domain s)) =
                  (if Date_now clk < unlocksAt p then activeBlocks s
                   else filter (\<lambda>(k, info). k \<noteq> c) (activeBlocks s))"
    unfolding c by simp
  have ex: "list_ex (\<lambda>(k, info). Date_now clk' < until info \<and> domainMatches c k)
              (filter (\<lambda>(k, info). k \<noteq> c) bs) =
            list_ex (\<lambda>(k, info). k \<noteq> c \<and> Date_now clk' < until info \<and> domainMatches c k) bs"
    for bs :: "(string \<times> blockEntry) list"
    by (auto simp: list_ex_iff)
  have b: "fst (isBlocked P clk' domain (snd (confirm P clk domain s))) =
             (if Date_now clk < unlocksAt p
              then list_ex (\<lambda>(k, info). Date_now clk' < until info \<and> domainMatches c k)
                     (activeBlocks s)
              else list_ex (\<lambda>(k, info). k \<noteq> c \<and> Date_now clk' < until info \<and> domainMatches c k)
                     (activeBlocks s))"
    unfolding isBlocked_iff [OF assms(1,2)] blocks using assms(4) by (simp add: ex)
  have g: "Date_now clk < unlocksAt p \<longleftrightarrow> 0 < ceilDiv (unlocksAt p - Date_now clk) 1000"
    by (simp add: ceilDiv_pos_iff)
  from c g b show ?thesis by (intro conjI)
qed

theorem confirm_gate_witness:
  "extractDomain examplePlatform ''https://www.youtube.com/'' = Some ''youtube.com''
   \<and> extractDomain examplePlatform ''youtube.com'' = Some ''youtube.com''
   \<and> ''youtube.com'' \<notin> set objectPrototypeNames
   \<and> fst (confirm examplePlatform (exampleClock 299999) ''https://www.youtube.com/''
          (emptyStore\<lparr>activeBlocks :=
               [(''youtube.com'', \<lparr>until = 3600000, blockedAt = 0, reason = MANUAL\<rparr>)],
             pendingUnblocks :=
               [(''youtube.com'', \<lparr>requestedAt = 0, unlocksAt = 300000, attemptNumber = 1\<rparr>)]\<rparr>))
       = Inl (FocusGuardError UNBLOCK_DELAY_NOT_COMPLETE (Some 1))
   \<and> fst (confirm examplePlatform (exampleClock 300000) ''https://www.youtube.com/''
          (emptyStore\<lparr>activeBlocks :=
               [(''youtube.com'', \<lparr>until = 3600000, blockedAt = 0, reason = MANUAL\<rparr>)],
             pendingUnblocks :=
               [(''youtube.com'', \<lparr>requestedAt = 0, unlocksAt = 300000, attemptNumber = 1\<rparr>)]\<rparr>))
       = Inr ''youtube.com''
   \<and> \<not> fst (isBlocked examplePlatform (exampleClock 300001) ''https://www.youtube.com/''
        (snd (confirm examplePlatform (exampleClock 300000) ''https://www.youtube.com/''
          (emptyStore\<lparr>activeBlocks :=
               [(''youtube.com'', \<lparr>until = 3600000, blockedAt = 0, reason = MANUAL\<rparr>)],
             pendingUnblocks :=
               [(''youtube.com'', \<lparr>requestedAt = 0, unlocksAt = 300000, attemptNumber = 1\<rparr>)]\<rparr>))))"
proof -
  let ?s = "emptyStore\<lparr>activeBlocks :=
               [(''youtube.com'', \<lparr>until = 3600000, blockedAt = 0, reason = MANUAL\<rparr>)],
             pendingUnblocks :=
               [(''youtube.com'', \<lparr>requestedAt = 0, unlocksAt = 300000, attemptNumber = 1\<rparr>)]\<rparr>"
  have e: "extractDomain examplePlatform ''https://www.youtube.com/'' = Some ''youtube.com''"
    by code_simp
  have n: "''youtube.com'' \<noteq> []" by simp
  have i: "extractDomain examplePlatform ''youtube.com'' = Some ''youtube.com''" by code_simp
  have p: "map_of (pendingUnblocks ?s) ''youtube.com''
             = Some \<lparr>requestedAt = 0, unlocksAt = 300000, attemptNumber = 1\<rparr>"
    by (simp add: emptyStore_def)
  have bl: "map_of (activeBlocks ?s) ''youtube.com''
             = Some \<lparr>until = 3600000, blockedAt = 0, reason = MANUAL\<rparr>"
    by (simp add: emptyStore_def)
  have c: "ceilDiv (300000 - 299999) 1000 = 1" by code_simp
  have np: "''youtube.com'' \<notin> set objectPrototypeNames" by (simp add: objectPrototypeNames_def)
  note g = confirm_gate [OF e n i np p bl]
  from g [of "exampleClock 299999" "exampleClock 300001"]
  have before: "fst (confirm examplePlatform (exampleClock 299999) ''https://www.youtube.com/'' ?s)
                  = Inl (FocusGuardError UNBLOCK_DELAY_NOT_COMPLETE (Some 1))"
    using c by (simp add: exampleClock_def)
  from g [of "exampleClock 300000" "exampleClock 300001"]
  have after: "fst (confirm examplePlatform (exampleClock 300000) ''https://www.youtube.com/'' ?s)
                  = Inr ''youtube.com''"
    by (simp add: exampleClock_def emptyStore_def)
  have "fst (isBlocked examplePlatform (exampleClock 300001) ''https://www.youtube.com/''
               (snd (confirm examplePlatform (exampleClock 300000)
                       ''https://www.youtube.com/'' ?s)))
        = (if Date_now (exampleClock 300000)
                < unlocksAt \<lparr>requestedAt = 0, unlocksAt = 300000, attemptNumber = 1\<rparr>
           then list_ex (\<lambda>(k, info). Date_now (exampleClock 300001) < until info
                           \<and> domainMatches ''youtube.com'' k) (activeBlocks ?s)
           else list_ex (\<lambda>(k, info). k \<noteq> ''youtube.com''
                           \<and> Date_now (exampleClock 300001) < until info
                           \<and> domainMatches ''youtube.com'' k) (activeBlocks ?s))"
    by (rule g [THEN conjunct2, THEN conjunct2])
  also have "\<dots> = False"
    by (simp add: exampleClock_def emptyStore_def)
  finally have unblocked: "\<not> fst (isBlocked examplePlatform (exampleClock 300001)
                       ''https://www.youtube.com/''
                       (snd (confirm examplePlatform (exampleClock 300000)
                               ''https://www.youtube.com/'' ?s)))"
    by simp
  from e i np before after unblocked show ?thesis by simp
qed

text \<open>
  The claim as it is written fails in four ways. With a pending unblock that has
  elapsed and no block entry, \<open>confirm\<close> fails with \<open>block_not_found\<close>. With a block on
  \<open>sub.example.com\<close> and one on its parent \<open>example.com\<close>, \<open>confirm\<close> succeeds and
  \<open>isBlocked\<close> is still true. \<open>www.www.example.com\<close> normalizes to \<open>www.example.com\<close>,
  which \<open>remove\<close> normalizes once more: \<open>confirm\<close> succeeds after deleting the block of
  \<open>example.com\<close>, and the block of \<open>www.example.com\<close> stays. And for \<open>constructor\<close>,
  with no block stored, \<open>confirm\<close> succeeds and \<open>isBlocked\<close> is true afterwards, since both
  find the member that the block map inherits.
\<close>

theorem confirm_counterexample:
  "fst (confirm examplePlatform (exampleClock 400000) ''youtube.com''
          (emptyStore\<lparr>pendingUnblocks :=
               [(''youtube.com'', \<lparr>requestedAt = 0, unlocksAt = 300000, attemptNumber = 1\<rparr>)]\<rparr>))
     = Inl (FocusGuardError BLOCK_NOT_FOUND None)
   \<and> fst (confirm examplePlatform (exampleClock 400000) ''sub.example.com''
          (emptyStore\<lparr>activeBlocks :=
               [(''example.com'', \<lparr>until = 3600000, blockedAt = 0, reason = MANUAL\<rparr>),
                (''sub.example.com'', \<lparr>until = 3600000, blockedAt = 0, reason = MANUAL\<rparr>)],
             pendingUnblocks :=
               [(''sub.example.com'',
                 \<lparr>requestedAt = 0, unlocksAt = 300000, attemptNumber = 1\<rparr>)]\<rparr>))
     = Inr ''sub.example.com''
   \<and> fst (isBlocked examplePlatform (exampleClock 400000) ''sub.example.com''
        (snd (confirm examplePlatform (exampleClock 400000) ''sub.example.com''
          (emptyStore\<lparr>activeBlocks :=
               [(''example.com'', \<lparr>until = 3600000, blockedAt = 0, reason = MANUAL\<rparr>),
                (''sub.example.com'', \<lparr>until = 3600000, blockedAt = 0, reason = MANUAL\<rparr>)],
             pendingUnblocks :=
               [(''sub.example.com'',
                 \<lparr>requestedAt = 0, unlocksAt = 300000, attemptNumber = 1\<rparr>)]\<rparr>))))
   \<and> fst (confirm examplePlatform (exampleClock 400000) ''www.www.example.com''
          (emptyStore\<lparr>activeBlocks :=
               [(''www.example.com'', \<lparr>until = 3600000, blockedAt = 0, reason = MANUAL\<rparr>),
                (''example.com'', \<lparr>until = 3600000, blockedAt = 0, reason = MANUAL\<rparr>)],
             pendingUnblocks :=
               [(''www.example.com'',
                 \<lparr>requestedAt = 0, unlocksAt = 300000, attemptNumber = 1\<rparr>)]\<rparr>))
     = Inr ''www.example.com''
   \<and> fst (isBlocked examplePlatform (exampleClock 400000) ''www.www.example.com''
        (snd (confirm examplePlatform (exampleClock 400000) ''www.www.example.com''
          (emptyStore\<lparr>activeBlocks :=
               [(''www.example.com'', \<lparr>until = 3600000, blockedAt = 0, reason = MANUAL\<rparr>),
                (''example.com'', \<lparr>until = 3600000, blockedAt = 0, reason = MANUAL\<rparr>)],
             pendingUnblocks :=
               [(''www.example.com'',
                 \<lparr>requestedAt = 0, unlocksAt = 300000, attemptNumber = 1\<rparr>)]\<rparr>))))
   \<and> fst (confirm examplePlatform (exampleClock 400000) ''constructor''
          (emptyStore\<lparr>pendingUnblocks :=
               [(''constructor'', \<lparr>requestedAt = 0, unlocksAt = 300000, attemptNumber = 1\<rparr>)]\<rparr>))
     = Inr ''constructor''
   \<and> fst (isBlocked examplePlatform (exampleClock 400000) ''constructor''
        (snd (confirm examplePlatform (exampleClock 400000) ''constructor''
          (emptyStore\<lparr>pendingUnblocks :=
               [(''constructor'',
                 \<lparr>requestedAt = 0, unlocksAt = 300000, attemptNumber = 1\<rparr>)]\<rparr>))))"
  by code_simp

subsection \<open>Schedule engine\<close>

lemma getAll_blocks:
  "fst (getAll clk s) = filter (\<lambda>(domain, info). Date_now clk < until info) (activeBlocks s)"
  "activeBlocks (snd (getAll clk s)) =
     filter (\<lambda>(domain, info). Date_now clk < until info) (activeBlocks s)"
proof -
  show "fst (getAll clk s) = filter (\<lambda>(domain, info). Date_now clk < until info) (activeBlocks s)"
    by (simp add: getAll_def Let_def getActiveBlocks_def)
  have "\<not> list_ex (\<lambda>(domain, info). \<not> Date_now clk < until info) bs
        \<Longrightarrow> filter (\<lambda>(domain, info). Date_now clk < until info) bs = bs"
    for bs :: "(string \<times> blockEntry) list"
    by (induction bs) auto
  then show "activeBlocks (snd (getAll clk s)) =
     filter (\<lambda>(domain, info). Date_now clk < until info) (activeBlocks s)"
    by (simp add: getAll_def Let_def getActiveBlocks_def setActiveBlocks_def)
qed

lemma map_of_filter_kept:
  "map_of al k = Some v \<Longrightarrow> Q (k, v) \<Longrightarrow> map_of (filter Q al) k = Some v"
  by (induction al) (auto split: if_splits)

lemma map_of_update_other: "k' \<noteq> k \<Longrightarrow> map_of (AList.update k' v al) k = map_of al k"
  by (simp add: AList.update_conv')

lemma validateDomain_Inr:
  "validateDomain P d = Inr c \<Longrightarrow> extractDomain P d = Some c \<and> c \<noteq> [] \<and> d \<noteq> []"
  by (auto simp: validateDomain_def split: if_splits option.splits)

lemma validateDomain_same_clean:
  "validateDomain P d = Inr c \<Longrightarrow> extractDomain P d' = Some c \<Longrightarrow> validateDomain P d' = Inr c"
  by (auto simp: validateDomain_def extractDomain_def split: if_splits option.splits)

lemma validateDomain_not_clean:
  "extractDomain P d = None \<or> extractDomain P d = Some [] \<Longrightarrow> \<exists>e. validateDomain P d = Inl e"
  by (auto simp: validateDomain_def split: if_splits option.splits)

lemma add_blocks:
  "activeBlocks (snd (add P clk d (JNumber m) r s)) =
     (case validateDomain P d of
        Inl e \<Rightarrow> activeBlocks s
      | Inr c \<Rightarrow>
          (case validateDuration P (JNumber m) of
             Inl e \<Rightarrow> activeBlocks s
           | Inr v \<Rightarrow>
               AList.update c \<lparr>until = Date_now clk + v * 60 * 1000, blockedAt = Date_now clk,
                                reason = r\<rparr> (activeBlocks s)))"
  by (simp add: add_def storage_defs Let_def split: sum.splits)

lemma add_blocks_other:
  assumes "validateDomain P d = Inr c'" and "c' \<noteq> c"
  shows "map_of (activeBlocks (snd (add P clk d (JNumber m) r s))) c = map_of (activeBlocks s) c"
  using assms by (simp add: add_blocks map_of_update_other split: sum.splits)

lemma add_blocks_valid:
  assumes "validateDomain P d = Inr c" and "1 \<le> m" and "m \<le> 480"
  shows "map_of (activeBlocks (snd (add P clk d (JNumber m) r s))) c =
           Some \<lparr>until = Date_now clk + m * 60 * 1000, blockedAt = Date_now clk, reason = r\<rparr>"
proof -
  have "\<bar>m\<bar> < 10 ^ 21" using assms(2,3) by simp
  then have "validateDuration P (JNumber m) = Inr m"
    using assms(2,3) by (simp add: validateDuration_JNumber)
  with assms(1) show ?thesis by (simp add: add_blocks map_of_update_same)
qed

lemma activateDomain_not_clean:
  assumes "extractDomain P d = None \<or> extractDomain P d = Some []"
  shows "activateDomain P clk m d s = s"
proof -
  from validateDomain_not_clean [OF assms] obtain e where e: "validateDomain P d = Inl e" ..
  from assms have "getBlockInfo P clk d s = (None, s)"
    by (auto simp: getBlockInfo_def)
  then show ?thesis
    by (simp add: activateDomain_def add_def e)
qed

lemma getBlockInfo_clean:
  assumes "extractDomain P d = Some c" and "c \<noteq> []"
  shows "snd (getBlockInfo P clk d s) = snd (getAll clk s)"
    and "map_of (filter (\<lambda>(domain, info). Date_now clk < until info) (activeBlocks s)) c = Some e
         \<Longrightarrow> fst (getBlockInfo P clk d s) = Some (c, Some e)"
  using assms getAll_blocks(1) [of clk s]
  by (auto simp: getBlockInfo_def split_beta getProperty_Own split: option.splits property.splits)

lemma activateDomain_keeps_schedule:
  assumes "map_of (activeBlocks s) c = Some e" and "reason e = SCHEDULE"
      and "Date_now clk < until e"
  shows "map_of (activeBlocks (activateDomain P clk m d s)) c = Some e"
proof (cases "extractDomain P d = None \<or> extractDomain P d = Some []")
  case True
  then show ?thesis using assms(1) by (simp add: activateDomain_not_clean)
next
  case False
  then obtain c' where c': "extractDomain P d = Some c'" "c' \<noteq> []" by auto
  let ?s1 = "snd (getAll clk s)"
  have kept: "map_of (filter (\<lambda>(domain, info). Date_now clk < until info) (activeBlocks s)) c
                = Some e"
    using assms(1,3) by (intro map_of_filter_kept) auto
  then have m1: "map_of (activeBlocks ?s1) c = Some e"
    by (simp add: getAll_blocks)
  have snd1: "snd (getBlockInfo P clk d s) = ?s1"
    by (rule getBlockInfo_clean(1) [OF c'])
  show ?thesis
  proof (cases "c' = c")
    case True
    with getBlockInfo_clean(2) [OF c' ] kept
    have "fst (getBlockInfo P clk d s) = Some (c, Some e)" by simp
    with snd1 assms(2) m1 show ?thesis
      by (simp add: activateDomain_def split_beta)
  next
    case False
    have "map_of (activeBlocks (snd (add P clk d (JNumber m) SCHEDULE ?s1))) c = Some e"
    proof (cases "validateDomain P d")
      case (Inl err)
      then show ?thesis using m1 by (simp add: add_blocks)
    next
      case (Inr c'')
      with validateDomain_Inr [OF Inr] c' have "c'' = c'" by simp
      with Inr False m1 show ?thesis
        by (simp add: add_blocks_other)
    qed
    with snd1 m1 show ?thesis
      by (simp add: activateDomain_def split_beta)
  qed
qed

lemma fold_activateDomain_keeps_schedule:
  assumes "map_of (activeBlocks s) c = Some e" and "reason e = SCHEDULE"
      and "Date_now clk < until e"
  shows "map_of (activeBlocks (fold (activateDomain P clk m) ds s)) c = Some e"
  using assms
proof (induction ds arbitrary: s)
  case Nil
  then show ?case by simp
next
  case (Cons d ds)
  from activateDomain_keeps_schedule [OF Cons.prems]
  have "map_of (activeBlocks (activateDomain P clk m d s)) c = Some e" .
  from Cons.IH [OF this Cons.prems(2,3)] show ?case by simp
qed

lemma checkSingle_keeps_schedule:
  assumes "map_of (activeBlocks s) c = Some e" and "reason e = SCHEDULE"
      and "Date_now clk < until e"
  shows "map_of (activeBlocks (checkSingle P clk sch s)) c = Some e"
  using assms fold_activateDomain_keeps_schedule [OF assms]
  by (simp add: checkSingle_def Let_def)

lemma activateDomain_overrides:
  assumes vd: "validateDomain P d = Inr c" and m: "1 \<le> m" "m \<le> 480"
      and e: "map_of (activeBlocks s) c = Some e" "reason e \<noteq> SCHEDULE"
             "Date_now clk < until e"
      and d': "extractDomain P d' = Some c"
  shows "map_of (activeBlocks (activateDomain P clk m d' s)) c =
           Some \<lparr>until = Date_now clk + m * 60 * 1000, blockedAt = Date_now clk,
                 reason = SCHEDULE\<rparr>"
proof -
  from validateDomain_Inr [OF vd] have c: "c \<noteq> []" by simp
  let ?s1 = "snd (getAll clk s)"
  have kept: "map_of (filter (\<lambda>(domain, info). Date_now clk < until info) (activeBlocks s)) c
                = Some e"
    using e(1,3) by (intro map_of_filter_kept) auto
  have info: "fst (getBlockInfo P clk d' s) = Some (c, Some e)"
    by (rule getBlockInfo_clean(2) [OF d' c kept])
  have snd1: "snd (getBlockInfo P clk d' s) = ?s1"
    by (rule getBlockInfo_clean(1) [OF d' c])
  have vd': "validateDomain P d' = Inr c"
    by (rule validateDomain_same_clean [OF vd d'])
  from info snd1 e(2)
  have "activateDomain P clk m d' s = snd (add P clk d' (JNumber m) SCHEDULE ?s1)"
    by (simp add: activateDomain_def split_beta)
  then show ?thesis
    using add_blocks_valid [OF vd' m] by simp
qed

lemma activateDomain_other_key:
  assumes "map_of (activeBlocks s) c = Some e" and "Date_now clk < until e"
      and "extractDomain P d' \<noteq> Some c"
  shows "map_of (activeBlocks (activateDomain P clk m d' s)) c = Some e"
proof (cases "extractDomain P d' = None \<or> extractDomain P d' = Some []")
  case True
  then show ?thesis using assms(1) by (simp add: activateDomain_not_clean)
next
  case False
  then obtain c' where c': "extractDomain P d' = Some c'" "c' \<noteq> []" by auto
  with assms(3) have ne: "c' \<noteq> c" by simp
  let ?s1 = "snd (getAll clk s)"
  have m1: "map_of (activeBlocks ?s1) c = Some e"
    using assms(1,2) by (simp add: getAll_blocks map_of_filter_kept)
  have snd1: "snd (getBlockInfo P clk d' s) = ?s1"
    by (rule getBlockInfo_clean(1) [OF c'])
  have "map_of (activeBlocks (snd (add P clk d' (JNumber m) SCHEDULE ?s1))) c = Some e"
  proof (cases "validateDomain P d'")
    case (Inl err)
    then show ?thesis using m1 by (simp add: add_blocks)
  next
    case (Inr c'')
    with validateDomain_Inr [OF Inr] c' have "c'' = c'" by simp
    with Inr ne m1 show ?thesis
      by (simp add: add_blocks_other)
  qed
  with snd1 m1 show ?thesis
    by (simp add: activateDomain_def split_beta)
qed

lemma fold_activateDomain_overrides:
  assumes vd: "validateDomain P d = Inr c" and m: "1 \<le> m" "m \<le> 480"
      and e: "map_of (activeBlocks s) c = Some e" "reason e \<noteq> SCHEDULE"
             "Date_now clk < until e"
      and mem: "d \<in> set ds"
  shows "map_of (activeBlocks (fold (activateDomain P clk m) ds s)) c =
           Some \<lparr>until = Date_now clk + m * 60 * 1000, blockedAt = Date_now clk,
                 reason = SCHEDULE\<rparr>"
  using e mem
proof (induction ds arbitrary: s)
  case Nil
  then show ?case by simp
next
  case (Cons d' ds)
  let ?new = "\<lparr>until = Date_now clk + m * 60 * 1000, blockedAt = Date_now clk,
               reason = SCHEDULE\<rparr>"
  have fresh: "Date_now clk < until ?new" using m by simp
  show ?case
  proof (cases "extractDomain P d' = Some c")
    case True
    from activateDomain_overrides [OF vd m Cons.prems(1-3) True]
    have "map_of (activeBlocks (activateDomain P clk m d' s)) c = Some ?new" .
    from fold_activateDomain_keeps_schedule [OF this _ fresh]
    show ?thesis by simp
  next
    case False
    with validateDomain_Inr [OF vd] have "d' \<noteq> d" by auto
    with Cons.prems(4) have mem': "d \<in> set ds" by simp
    from activateDomain_other_key [OF Cons.prems(1,3) False]
    have "map_of (activeBlocks (activateDomain P clk m d' s)) c = Some e" .
    from Cons.IH [OF this Cons.prems(2,3) mem'] show ?thesis by simp
  qed
qed

lemma isInTimeWindow_remaining:
  "isInTimeWindow P clk st en \<Longrightarrow> 1 \<le> minutesUntilEndTime P clk en"
  by (simp add: isInTimeWindow_def minutesUntilEndTime_def Let_def)

text \<open>
  C3 (as amended). \<open>checkSingle\<close> applies a schedule block to a domain whenever the block
  found for it is not schedule-sourced, so a manual block is overridden: when the
  schedule is active with at most 480 minutes left, one of its domains is valid, and the
  block stored for it is unexpired, is not schedule-sourced and ends no later than the
  schedule block would, then after the call the entry of the domain is a schedule block
  that runs until the end of the window. A schedule-sourced block already in place is
  never restarted: whatever the store, the schedule and the clock reading, a call of
  \<open>checkSingle\<close> leaves every unexpired schedule-sourced entry as it is. So a second call
  made before the new block expires leaves the block that the first call created, and
  its \<open>until\<close>, unchanged.
\<close>

theorem checkSingle_schedule_blocks:
  assumes "enabled sch" and "getCurrentDay clk \<in> set (days sch)"
      and "isInTimeWindow P clk (startTime sch) (endTime sch)"
      and "m = minutesUntilEndTime P clk (endTime sch)" and "m \<le> 480"
      and "d \<in> set (domains sch)" and "validateDomain P d = Inr c"
      and "map_of (activeBlocks s) c = Some e" and "reason e \<noteq> SCHEDULE"
      and "Date_now clk < until e" and "until e \<le> Date_now clk + m * 60 * 1000"
  shows "map_of (activeBlocks (checkSingle P clk sch s)) c =
           Some \<lparr>until = Date_now clk + m * 60 * 1000, blockedAt = Date_now clk,
                 reason = SCHEDULE\<rparr>
         \<and> (\<forall>s' c' e' clk' sch'.
               map_of (activeBlocks s') c' = Some e' \<and> reason e' = SCHEDULE
               \<and> Date_now clk' < until e'
               \<longrightarrow> map_of (activeBlocks (checkSingle P clk' sch' s')) c' = Some e')
         \<and> (\<forall>clk'. Date_now clk' < Date_now clk + m * 60 * 1000
               \<longrightarrow> map_of (activeBlocks (checkSingle P clk' sch (checkSingle P clk sch s))) c =
                     Some \<lparr>until = Date_now clk + m * 60 * 1000, blockedAt = Date_now clk,
                           reason = SCHEDULE\<rparr>)"
proof -
  let ?new = "\<lparr>until = Date_now clk + m * 60 * 1000, blockedAt = Date_now clk,
               reason = SCHEDULE\<rparr>"
  have m1: "1 \<le> m"
    using assms(3,4) by (simp add: isInTimeWindow_remaining)
  have run: "checkSingle P clk sch s = fold (activateDomain P clk m) (domains sch) s"
    using assms(1-4) m1 by (simp add: checkSingle_def Let_def)
  have created: "map_of (activeBlocks (checkSingle P clk sch s)) c = Some ?new"
    unfolding run
    by (rule fold_activateDomain_overrides [OF assms(7) m1 assms(5) assms(8-10) assms(6)])
  have kept: "\<forall>s' c' e' clk' sch'.
               map_of (activeBlocks s') c' = Some e' \<and> reason e' = SCHEDULE
               \<and> Date_now clk' < until e'
               \<longrightarrow> map_of (activeBlocks (checkSingle P clk' sch' s')) c' = Some e'"
    by (auto intro: checkSingle_keeps_schedule)
  have again: "\<forall>clk'. Date_now clk' < Date_now clk + m * 60 * 1000
               \<longrightarrow> map_of (activeBlocks (checkSingle P clk' sch (checkSingle P clk sch s))) c =
                     Some ?new"
    using created by (auto intro: checkSingle_keeps_schedule)
  from created kept again show ?thesis by blast
qed

theorem checkSingle_schedule_blocks_witness:
  "enabled exampleSchedule
   \<and> getCurrentDay (exampleClock 1000000) \<in> set (days exampleSchedule)
   \<and> isInTimeWindow examplePlatform (exampleClock 1000000)
         (startTime exampleSchedule) (endTime exampleSchedule)
   \<and> minutesUntilEndTime examplePlatform (exampleClock 1000000) (endTime exampleSchedule) = 420
   \<and> validateDomain examplePlatform ''reddit.com'' = Inr ''reddit.com''
   \<and> map_of (activeBlocks (checkSingle examplePlatform (exampleClock 1000000) exampleSchedule
              (emptyStore\<lparr>activeBlocks :=
                 [(''reddit.com'',
                   \<lparr>until = 1600000, blockedAt = 1000000, reason = MANUAL\<rparr>)]\<rparr>)))
         ''reddit.com''
       = Some \<lparr>until = 26200000, blockedAt = 1000000, reason = SCHEDULE\<rparr>
   \<and> map_of (activeBlocks (checkSingle examplePlatform (exampleClock 1060000) exampleSchedule
              (checkSingle examplePlatform (exampleClock 1000000) exampleSchedule
                (emptyStore\<lparr>activeBlocks :=
                   [(''reddit.com'',
                     \<lparr>until = 1600000, blockedAt = 1000000, reason = MANUAL\<rparr>)]\<rparr>))))
         ''reddit.com''
       = Some \<lparr>until = 26200000, blockedAt = 1000000, reason = SCHEDULE\<rparr>
   \<and> map_of (activeBlocks (checkSingle examplePlatform (exampleClock 1120000) exampleSchedule
              (checkSingle examplePlatform (exampleClock 1000000) exampleSchedule
                (emptyStore\<lparr>activeBlocks :=
                   [(''reddit.com'',
                     \<lparr>until = 1600000, blockedAt = 1000000, reason = MANUAL\<rparr>)]\<rparr>))))
         ''reddit.com''
       = Some \<lparr>until = 26200000, blockedAt = 1000000, reason = SCHEDULE\<rparr>"
proof -
  let ?s = "emptyStore\<lparr>activeBlocks :=
              [(''reddit.com'', \<lparr>until = 1600000, blockedAt = 1000000, reason = MANUAL\<rparr>)]\<rparr>"
  let ?e = "\<lparr>until = 1600000, blockedAt = 1000000, reason = MANUAL\<rparr>"
  let ?new = "\<lparr>until = 26200000, blockedAt = 1000000, reason = SCHEDULE\<rparr>"
  have h1: "enabled exampleSchedule" by (simp add: exampleSchedule_def)
  have h2: "getCurrentDay (exampleClock 1000000) \<in> set (days exampleSchedule)"
    by (simp add: exampleSchedule_def exampleClock_def)
  have h3: "isInTimeWindow examplePlatform (exampleClock 1000000)
              (startTime exampleSchedule) (endTime exampleSchedule)"
    by code_simp
  have h4: "(420::int) = minutesUntilEndTime examplePlatform (exampleClock 1000000)
                           (endTime exampleSchedule)"
    by code_simp
  have h5: "(420::int) \<le> 480" by simp
  have h6: "''reddit.com'' \<in> set (domains exampleSchedule)" by (simp add: exampleSchedule_def)
  have h7: "validateDomain examplePlatform ''reddit.com'' = Inr ''reddit.com''" by code_simp
  have h8: "map_of (activeBlocks ?s) ''reddit.com'' = Some ?e" by (simp add: emptyStore_def)
  have h9: "reason ?e \<noteq> SCHEDULE" by (simp add: MANUAL_def SCHEDULE_def)
  have h10: "Date_now (exampleClock 1000000) < until ?e" by (simp add: exampleClock_def)
  have h11: "until ?e \<le> Date_now (exampleClock 1000000) + 420 * 60 * 1000"
    by (simp add: exampleClock_def)
  note t = checkSingle_schedule_blocks [OF h1 h2 h3 h4 h5 h6 h7 h8 h9 h10 h11]
  from t have first:
    "map_of (activeBlocks (checkSingle examplePlatform (exampleClock 1000000) exampleSchedule ?s))
       ''reddit.com''
     = Some \<lparr>until = 26200000, blockedAt = 1000000, reason = SCHEDULE\<rparr>"
    by (simp add: exampleClock_def)
  have "Date_now (exampleClock 1060000) < Date_now (exampleClock 1000000) + 420 * 60 * 1000"
    by (simp add: exampleClock_def)
  with t have second:
    "map_of (activeBlocks (checkSingle examplePlatform (exampleClock 1060000) exampleSchedule
        (checkSingle examplePlatform (exampleClock 1000000) exampleSchedule ?s)))
       ''reddit.com''
     = Some \<lparr>until = Date_now (exampleClock 1000000) + 420 * 60 * 1000,
             blockedAt = Date_now (exampleClock 1000000), reason = SCHEDULE\<rparr>"
    by blast
  have "reason ?new = SCHEDULE \<and> Date_now (exampleClock 1120000) < until ?new"
    by (simp add: exampleClock_def)
  with t first have third:
    "map_of (activeBlocks (checkSingle examplePlatform (exampleClock 1120000) exampleSchedule
        (checkSingle examplePlatform (exampleClock 1000000) exampleSchedule ?s)))
       ''reddit.com''
     = Some ?new"
    by blast
  from h1 h2 h3 h4 h7 first second third show ?thesis by (simp add: exampleClock_def)
qed

text \<open>
  The claim as it is written, that a schedule check never overrides a manual block,
  fails: on a Wednesday at 10:00 a schedule for 09:00 to 17:00 replaces a manual block of
  \<open>reddit.com\<close> that had ten minutes left by a schedule block that runs until 17:00.
\<close>

theorem checkSingle_overrides_manual_counterexample:
  "map_of (activeBlocks (checkSingle examplePlatform (exampleClock 1000000) exampleSchedule
            (emptyStore\<lparr>activeBlocks :=
               [(''reddit.com'',
                 \<lparr>until = 1600000, blockedAt = 1000000, reason = MANUAL\<rparr>)]\<rparr>)))
       ''reddit.com''
     = Some \<lparr>until = 26200000, blockedAt = 1000000, reason = SCHEDULE\<rparr>"
  by code_simp

text \<open>
  The test of the loop looks at the reason of the block only, although its comment reads
  ``only add if not already blocked, or if schedule would extend it'': a manual block
  that ends after the window is replaced all the same, and ends earlier than before. Here
  a manual block of eight hours is cut to the seven hours that the window has left.
\<close>

lemma checkSingle_shortens_manual_example:
  "map_of (activeBlocks (checkSingle examplePlatform (exampleClock 1000000) exampleSchedule
            (emptyStore\<lparr>activeBlocks :=
               [(''reddit.com'',
                 \<lparr>until = 29800000, blockedAt = 1000000, reason = MANUAL\<rparr>)]\<rparr>)))
       ''reddit.com''
     = Some \<lparr>until = 26200000, blockedAt = 1000000, reason = SCHEDULE\<rparr>"
  by code_simp

end
